theory Spec2Isabelle
  imports Complex_Main "HOL-Library.Sublist"
begin

section \<open>Values of the inventory\<close>

text \<open>
  The plugin \<^verbatim>\<open>roles/lib_utils/action_plugins/sanity_checks.py\<close> reads inventory
  variables, which are YAML/JSON values: \<^verbatim>\<open>None\<close>, booleans, unbounded integers,
  floats, strings, lists and dictionaries keyed by names. A float is kept by its exact
  value (a finite float is a rational number), since the code only compares floats with
  integer constants and tests them for zero; its printing is left to the runtime.
  Python 2 \<^verbatim>\<open>str\<close> and \<^verbatim>\<open>unicode\<close> compare by their text, so both are \<open>string\<close>.
\<close>

datatype pyfloat = Finite rat | Infinite bool | NaN

datatype pyval =
    PNone
  | PBool bool
  | PInt int
  | PFloat pyfloat
  | PStr string
  | PList "pyval list"
  | PDict "(string \<times> pyval) list"

text \<open>The constants the source compares a value with: booleans, integers and strings.\<close>

datatype lit = LBool bool | LInt int | LStr string

text \<open>
  The numeric value of a value, where it has one: \<^verbatim>\<open>bool\<close> is a subclass of
  \<^verbatim>\<open>int\<close> (\<^verbatim>\<open>True == 1\<close>), and Python compares an integer with a float by exact value.
\<close>

fun num_val :: "pyval \<Rightarrow> rat option" where
  "num_val (PBool b) = Some (if b then 1 else 0)"
| "num_val (PInt n) = Some (of_int n)"
| "num_val (PFloat (Finite q)) = Some q"
| "num_val v = None"

text \<open>Python's \<^verbatim>\<open>v == c\<close> for a constant \<^verbatim>\<open>c\<close>.\<close>

fun py_eq :: "pyval \<Rightarrow> lit \<Rightarrow> bool" where
  "py_eq v (LStr s) = (v = PStr s)"
| "py_eq v (LInt n) = (num_val v = Some (of_int n))"
| "py_eq v (LBool b) = (num_val v = Some (if b then 1 else 0))"

text \<open>Python's \<^verbatim>\<open>v in (c1, ..., cn)\<close> for a tuple of constants.\<close>

definition py_in :: "pyval \<Rightarrow> lit list \<Rightarrow> bool" where
  "py_in v cs = list_ex (py_eq v) cs"

text \<open>Python's truth value of an object (\<^verbatim>\<open>if v\<close>, \<^verbatim>\<open>not v\<close>).\<close>

fun truthy :: "pyval \<Rightarrow> bool" where
  "truthy PNone = False"
| "truthy (PBool b) = b"
| "truthy (PInt n) = (n \<noteq> 0)"
| "truthy (PFloat (Finite q)) = (q \<noteq> 0)"
| "truthy (PFloat f) = True"
| "truthy (PStr s) = (s \<noteq> [])"
| "truthy (PList xs) = (xs \<noteq> [])"
| "truthy (PDict d) = (d \<noteq> [])"

section \<open>Constants of the module\<close>

definition VALID_DEPLOYMENT_TYPES :: "string list" where
  "VALID_DEPLOYMENT_TYPES = [''origin'', ''openshift-enterprise'']"

definition NET_PLUGIN_LIST :: "(string \<times> bool) list" where
  "NET_PLUGIN_LIST =
     [(''openshift_use_openshift_sdn'', True),
      (''openshift_use_flannel'', False),
      (''openshift_use_nuage'', False),
      (''openshift_use_contiv'', False),
      (''openshift_use_calico'', False),
      (''openshift_use_kuryr'', False)]"

definition STORAGE_KIND_TUPLE :: "string list" where
  "STORAGE_KIND_TUPLE =
     [''openshift_hosted_registry_storage_kind'',
      ''openshift_loggingops_storage_kind'',
      ''openshift_logging_storage_kind'',
      ''openshift_metrics_storage_kind'',
      ''openshift_prometheus_alertbuffer_storage_kind'',
      ''openshift_prometheus_alertmanager_storage_kind'',
      ''openshift_prometheus_storage_kind'']"

section \<open>Boolean coercion\<close>

definition yes_list :: "lit list" where
  "yes_list =
     [LBool True, LInt 1, LStr ''True'', LStr ''1'', LStr ''true'', LStr ''TRUE'',
      LStr ''Yes'', LStr ''yes'', LStr ''Y'', LStr ''y'', LStr ''YES'',
      LStr ''on'', LStr ''ON'', LStr ''On'']"

definition to_bool :: "pyval \<Rightarrow> bool" where
  "to_bool var_to_check = py_in var_to_check yes_list"


section \<open>Operations of the language on values\<close>

datatype exn = AnsibleModuleError string | KeyError pyval | TypeError

text \<open>
  What the plugin takes from its runtime: the templating engine of Ansible
  (\<^verbatim>\<open>self._templar.template\<close>), and the text Python prints for a number, a list or a
  dictionary and for an exception of the interpreter.
\<close>

record runtime =
  template :: "pyval \<Rightarrow> pyval"
  str_other :: "pyval \<Rightarrow> string"
  str_builtin_exn :: "exn \<Rightarrow> string"

text \<open>\<^verbatim>\<open>str(v)\<close>\<close>

fun py_str :: "runtime \<Rightarrow> pyval \<Rightarrow> string" where
  "py_str rt (PStr s) = s"
| "py_str rt PNone = ''None''"
| "py_str rt (PBool b) = (if b then ''True'' else ''False'')"
| "py_str rt v = str_other rt v"

text \<open>\<^verbatim>\<open>str(e)\<close> of an exception: an \<^verbatim>\<open>AnsibleModuleError\<close> prints its message.\<close>

fun exn_str :: "runtime \<Rightarrow> exn \<Rightarrow> string" where
  "exn_str rt (AnsibleModuleError m) = m"
| "exn_str rt e = str_builtin_exn rt e"

text \<open>\<^verbatim>\<open>v[k]\<close> for a string key: only a dictionary can be subscripted by a string.\<close>

fun getitem :: "pyval \<Rightarrow> string \<Rightarrow> exn + pyval" where
  "getitem (PDict d) k = (case map_of d k of None \<Rightarrow> Inl (KeyError (PStr k)) | Some v \<Rightarrow> Inr v)"
| "getitem v k = Inl TypeError"

text \<open>\<^verbatim>\<open>len(v)\<close>; a dictionary counts its keys.\<close>

fun py_len :: "pyval \<Rightarrow> exn + nat" where
  "py_len (PStr s) = Inr (length s)"
| "py_len (PList xs) = Inr (length xs)"
| "py_len (PDict d) = Inr (length (remdups (map fst d)))"
| "py_len v = Inl TypeError"

text \<open>\<^verbatim>\<open>for x in v\<close>: the elements of a list, the characters of a string, the keys of a dictionary.\<close>

fun py_iter :: "pyval \<Rightarrow> exn + pyval list" where
  "py_iter (PList xs) = Inr xs"
| "py_iter (PStr s) = Inr (map (\<lambda>c. PStr [c]) s)"
| "py_iter (PDict d) = Inr (map PStr (remdups (map fst d)))"
| "py_iter v = Inl TypeError"

text \<open>\<^verbatim>\<open>k in v\<close> for a string \<^verbatim>\<open>k\<close>: a key of a dictionary, an element of a list, a substring of a string.\<close>

fun py_contains :: "string \<Rightarrow> pyval \<Rightarrow> exn + bool" where
  "py_contains k (PDict d) = Inr (map_of d k \<noteq> None)"
| "py_contains k (PList xs) = Inr (list_ex (\<lambda>x. x = PStr k) xs)"
| "py_contains k (PStr s) = Inr (sublist k s)"
| "py_contains k v = Inl TypeError"

text \<open>\<^verbatim>\<open>isinstance\<close> of \<^verbatim>\<open>list\<close>, as \<^verbatim>\<open>issubclass(type(v), list)\<close> tests it.\<close>

fun is_list :: "pyval \<Rightarrow> bool" where
  "is_list (PList xs) = True"
| "is_list v = False"

text \<open>\<^verbatim>\<open>sep.join(xs)\<close>\<close>

fun join :: "string \<Rightarrow> string list \<Rightarrow> string" where
  "join sep [] = []"
| "join sep [x] = x"
| "join sep (x # y # ys) = x @ sep @ join sep (y # ys)"

text \<open>\<^verbatim>\<open>template.format(a1, ..., an)\<close> for a template whose fields are all \<^verbatim>\<open>{}\<close>.\<close>

fun py_format :: "string \<Rightarrow> string list \<Rightarrow> string" where
  "py_format (c # d # cs) (a # as) =
     (if c = CHR ''{'' \<and> d = CHR ''}'' then a @ py_format cs as
      else c # py_format (d # cs) (a # as))"
| "py_format cs as = cs"

text \<open>\<^verbatim>\<open>sum(res)\<close> of a list of booleans.\<close>

definition py_sum :: "bool list \<Rightarrow> int" where
  "py_sum res = sum_list (map (\<lambda>b. if b then 1 else 0) res)"

text \<open>\<^verbatim>\<open>str\<close> of a list of (name, boolean) tuples, as \<^verbatim>\<open>format\<close> prints it.\<close>

definition repr_pair :: "string \<times> bool \<Rightarrow> string" where
  "repr_pair p =
     ''('' @ [CHR 0x27] @ fst p @ [CHR 0x27] @ '', '' @ (if snd p then ''True'' else ''False'') @ '')''"

definition repr_pairs :: "(string \<times> bool) list \<Rightarrow> string" where
  "repr_pairs ps = ''['' @ join '', '' (map repr_pair ps) @ '']''"

section \<open>Regular expressions\<close>

text \<open>
  The constructs of \<^verbatim>\<open>re\<close> that the two tag patterns use. \<open>rests r n s\<close> lists the
  suffixes that can remain when \<open>r\<close> has matched a prefix of \<open>s\<close>, itself a suffix of a
  subject of length \<open>n\<close>; \<^verbatim>\<open>re.match\<close> succeeds when the pattern matches some prefix of
  the subject. \<^verbatim>\<open>$\<close> matches at the end of the subject and before a newline that ends it.
\<close>

datatype regex =
    Lit char
  | Digit
  | Dot
  | Bol
  | Eol
  | Cat regex regex
  | Opt regex
  | Star regex
  | Plus regex
  | Group regex

fun star :: "(string \<Rightarrow> string list) \<Rightarrow> string \<Rightarrow> string list" where
  "star f s = s # concat (map (star f) (filter (\<lambda>t. length t < length s) (f s)))"

declare star.simps [simp del]

primrec rests :: "regex \<Rightarrow> nat \<Rightarrow> string \<Rightarrow> string list" where
  "rests (Lit c) n s = (case s of [] \<Rightarrow> [] | x # xs \<Rightarrow> if x = c then [xs] else [])"
| "rests Digit n s = (case s of [] \<Rightarrow> [] | x # xs \<Rightarrow> if x \<in> set ''0123456789'' then [xs] else [])"
| "rests Dot n s = (case s of [] \<Rightarrow> [] | x # xs \<Rightarrow> if x \<noteq> CHR 0x0A then [xs] else [])"
| "rests Bol n s = (if length s = n then [s] else [])"
| "rests Eol n s = (if s = [] \<or> s = [CHR 0x0A] then [s] else [])"
| "rests (Cat a b) n s = concat (map (rests b n) (rests a n s))"
| "rests (Opt a) n s = rests a n s @ [s]"
| "rests (Star a) n s = star (rests a n) s"
| "rests (Plus a) n s = concat (map (star (rests a n)) (rests a n s))"
| "rests (Group a) n s = rests a n s"

definition re_match :: "regex \<Rightarrow> string \<Rightarrow> bool" where
  "re_match r s = (rests r (length s) s \<noteq> [])"

definition cats :: "regex list \<Rightarrow> regex" where
  "cats rs = foldr Cat (butlast rs) (last rs)"

section \<open>Image tag patterns\<close>

definition ENTERPRISE_TAG_REGEX_ERROR :: string where
  "ENTERPRISE_TAG_REGEX_ERROR =
     ''openshift_image_tag must be in the format'' @ [CHR 0x0A] @
     ''v#.#[.#[.#]]. Examples: v1.2, v3.4.1, v3.5.1.3,'' @ [CHR 0x0A] @
     ''v3.5.1.3.4, v1.2-1, v1.2.3-4, v1.2.3-4.5, v1.2.3-4.5.6'' @ [CHR 0x0A] @
     ''You specified openshift_image_tag={}''"

definition ORIGIN_TAG_REGEX_ERROR :: string where
  "ORIGIN_TAG_REGEX_ERROR =
     ''openshift_image_tag must be in the format'' @ [CHR 0x0A] @
     ''v#.#[.#-optional.#]. Examples: v1.2.3, v3.5.1-alpha.1'' @ [CHR 0x0A] @
     ''You specified openshift_image_tag={}''"

record tag_regex =
  re :: regex
  error_msg :: string

text \<open>\<^verbatim>\<open>(^v?\d+\.\d+.*)\<close>\<close>

definition ORIGIN_TAG_REGEX :: tag_regex where
  "ORIGIN_TAG_REGEX =
     \<lparr>re = Group (cats [Bol, Opt (Lit CHR ''v''), Plus Digit, Lit CHR ''.'', Plus Digit, Star Dot]),
      error_msg = ORIGIN_TAG_REGEX_ERROR\<rparr>"

text \<open>\<^verbatim>\<open>(^v\d+\.\d+(\.\d+)*(-\d+(\.\d+)*)?$)\<close>\<close>

definition ENTERPRISE_TAG_REGEX :: tag_regex where
  "ENTERPRISE_TAG_REGEX =
     \<lparr>re = Group (cats [Bol, Lit CHR ''v'', Plus Digit, Lit CHR ''.'', Plus Digit,
              Star (Group (cats [Lit CHR ''.'', Plus Digit])),
              Opt (Group (cats [Lit CHR ''-'', Plus Digit,
                     Star (Group (cats [Lit CHR ''.'', Plus Digit]))])),
              Eol]),
      error_msg = ENTERPRISE_TAG_REGEX_ERROR\<rparr>"

definition IMAGE_TAG_REGEX :: "(string \<times> tag_regex) list" where
  "IMAGE_TAG_REGEX =
     [(''origin'', ORIGIN_TAG_REGEX), (''openshift-enterprise'', ENTERPRISE_TAG_REGEX)]"

text \<open>
  \<^verbatim>\<open>IMAGE_TAG_REGEX[key]\<close>: a missing key raises \<^verbatim>\<open>KeyError\<close>, a list or a dictionary
  cannot be hashed.
\<close>

fun image_tag_regex :: "pyval \<Rightarrow> exn + tag_regex" where
  "image_tag_regex (PStr k) =
     (case map_of IMAGE_TAG_REGEX k of None \<Rightarrow> Inl (KeyError (PStr k)) | Some e \<Rightarrow> Inr e)"
| "image_tag_regex (PList xs) = Inl TypeError"
| "image_tag_regex (PDict d) = Inl TypeError"
| "image_tag_regex v = Inl (KeyError v)"

section \<open>The plugin's state and its actions\<close>

text \<open>
  \<^verbatim>\<open>template_var\<close> records the host and the variable it was asked for in two
  attributes of the plugin, which \<^verbatim>\<open>run\<close> reads when a check raises. An action maps
  the state to its outcome, an exception (\<open>Inl\<close>) or a value, and the new state.
\<close>

record ctx =
  last_checked_host :: string
  last_checked_var :: string

type_synonym 'a action = "ctx \<Rightarrow> (exn + 'a) \<times> ctx"

definition ret :: "'a \<Rightarrow> 'a action" where
  "ret x = (\<lambda>s. (Inr x, s))"

definition raise :: "exn \<Rightarrow> 'a action" where
  "raise e = (\<lambda>s. (Inl e, s))"

definition lift :: "exn + 'a \<Rightarrow> 'a action" where
  "lift r = (\<lambda>s. (r, s))"

definition bnd :: "'a action \<Rightarrow> ('a \<Rightarrow> 'b action) \<Rightarrow> 'b action" where
  "bnd m f = (\<lambda>s. case m s of (Inl e, s') \<Rightarrow> (Inl e, s') | (Inr x, s') \<Rightarrow> f x s')"

type_synonym hostvars = "(string \<times> (string \<times> pyval) list) list"

section \<open>The checks\<close>

definition template_var :: "runtime \<Rightarrow> hostvars \<Rightarrow> string \<Rightarrow> string \<Rightarrow> pyval action" where
  "template_var rt hostvars host varname = (\<lambda>s.
     let s1 = s\<lparr>last_checked_var := varname\<rparr>;
         s2 = s1\<lparr>last_checked_host := host\<rparr>
     in case map_of hostvars host of
          None \<Rightarrow> (Inl (KeyError (PStr host)), s2)
        | Some vars \<Rightarrow>
            (case map_of vars varname of
               None \<Rightarrow> (Inr PNone, s2)
             | Some res \<Rightarrow>
                 if res = PNone then (Inr PNone, s2) else (Inr (template rt res), s2)))"

definition check_openshift_deployment_type :: "runtime \<Rightarrow> hostvars \<Rightarrow> string \<Rightarrow> pyval action" where
  "check_openshift_deployment_type rt hostvars host =
     bnd (template_var rt hostvars host ''openshift_deployment_type'') (\<lambda>openshift_deployment_type.
       if \<not> py_in openshift_deployment_type (map LStr VALID_DEPLOYMENT_TYPES) then
         let type_strings = join '', '' VALID_DEPLOYMENT_TYPES;
             msg = py_format ''openshift_deployment_type must be defined and one of {}'' [type_strings]
         in raise (AnsibleModuleError msg)
       else ret openshift_deployment_type)"

definition check_python_version :: "runtime \<Rightarrow> hostvars \<Rightarrow> string \<Rightarrow> pyval \<Rightarrow> unit action" where
  "check_python_version rt hostvars host distro =
     bnd (template_var rt hostvars host ''ansible_python'') (\<lambda>ansible_python.
       if py_eq distro (LStr ''Fedora'') then
         bnd (lift (getitem ansible_python ''version'')) (\<lambda>version.
         bnd (lift (getitem version ''major'')) (\<lambda>major.
           if \<not> py_eq major (LInt 3) then
             let msg = py_format ''openshift-ansible requires Python 3 for {};'' [py_str rt distro];
                 msg = msg @ '' For information on enabling Python 3 with Ansible,'';
                 msg = msg @ '' see https://docs.ansible.com/ansible/python_3_support.html''
             in raise (AnsibleModuleError msg)
           else ret ()))
       else
         bnd (lift (getitem ansible_python ''version'')) (\<lambda>version.
         bnd (lift (getitem version ''major'')) (\<lambda>major.
           if \<not> py_eq major (LInt 2) then
             let msg = py_format ''openshift-ansible requires Python 2 for {};'' [py_str rt distro]
             in ret ()
           else ret ())))"

definition check_image_tag_format :: "runtime \<Rightarrow> hostvars \<Rightarrow> string \<Rightarrow> pyval \<Rightarrow> unit action" where
  "check_image_tag_format rt hostvars host openshift_deployment_type =
     bnd (template_var rt hostvars host ''openshift_image_tag'') (\<lambda>openshift_image_tag.
       if \<not> truthy openshift_image_tag \<or> py_eq openshift_image_tag (LStr ''latest'') then ret ()
       else
         bnd (lift (image_tag_regex openshift_deployment_type)) (\<lambda>entry.
           let regex_to_match = re entry in
           if \<not> re_match regex_to_match (py_str rt openshift_image_tag) then
             let msg = error_msg entry;
                 msg = py_format msg [py_str rt openshift_image_tag]
             in raise (AnsibleModuleError msg)
           else ret ()))"

fun network_plugin_loop ::
  "runtime \<Rightarrow> hostvars \<Rightarrow> string \<Rightarrow> (string \<times> bool) list \<Rightarrow> bool list \<Rightarrow> bool list action" where
  "network_plugin_loop rt hostvars host [] res = ret res"
| "network_plugin_loop rt hostvars host ((plugin, default_val) # rest) res =
     bnd (template_var rt hostvars host plugin) (\<lambda>res_temp.
       let res_temp = (if res_temp = PNone then PBool default_val else res_temp)
       in network_plugin_loop rt hostvars host rest (res @ [to_bool res_temp]))"

definition network_plugin_check :: "runtime \<Rightarrow> hostvars \<Rightarrow> string \<Rightarrow> unit action" where
  "network_plugin_check rt hostvars host =
     bnd (network_plugin_loop rt hostvars host NET_PLUGIN_LIST []) (\<lambda>res.
       if \<not> (py_sum res = 0 \<or> py_sum res = 1) then
         let plugin_str = zip (map fst NET_PLUGIN_LIST) res;
             msg = py_format ''Host Checked: {} Only one of must be true. Found: {}''
                     [host, repr_pairs plugin_str]
         in raise (AnsibleModuleError msg)
       else ret ())"

fun hostname_loop :: "runtime \<Rightarrow> hostvars \<Rightarrow> string \<Rightarrow> string list \<Rightarrow> unit action" where
  "hostname_loop rt hostvars host [] = ret ()"
| "hostname_loop rt hostvars host (varname # rest) =
     bnd (template_var rt hostvars host varname) (\<lambda>var_value.
       if \<not> truthy var_value then hostname_loop rt hostvars host rest
       else
         bnd (lift (py_len var_value)) (\<lambda>n.
           if n > 63 then
             raise (AnsibleModuleError (py_format ''{} must be 63 characters or less'' [varname]))
           else hostname_loop rt hostvars host rest))"

definition check_hostname_vars :: "runtime \<Rightarrow> hostvars \<Rightarrow> string \<Rightarrow> unit action" where
  "check_hostname_vars rt hostvars host =
     hostname_loop rt hostvars host [''openshift_public_hostname'', ''openshift_hostname'']"

definition EQUAL_LENGTH_LISTS_MSG :: string where
  "EQUAL_LENGTH_LISTS_MSG =
     ''Expects openshift_master_session_auth_secrets and '' @
     ''openshift_master_session_encryption_secrets are equal length lists''"

definition AUTH_SECRET_MSG :: string where
  "AUTH_SECRET_MSG =
     ''Invalid secret in openshift_master_session_auth_secrets. '' @
     ''Secrets must be at least 32 characters in length.''"

definition ENCRYPTION_SECRET_MSG :: string where
  "ENCRYPTION_SECRET_MSG =
     ''Invalid secret in openshift_master_session_encryption_secrets. '' @
     ''Secrets must be 16, 24, or 32 characters in length.''"

fun auth_secrets_loop :: "pyval list \<Rightarrow> unit action" where
  "auth_secrets_loop [] = ret ()"
| "auth_secrets_loop (secret # rest) =
     bnd (lift (py_len secret)) (\<lambda>n.
       if n < 32 then raise (AnsibleModuleError AUTH_SECRET_MSG)
       else auth_secrets_loop rest)"

fun encryption_secrets_loop :: "pyval list \<Rightarrow> unit action" where
  "encryption_secrets_loop [] = ret ()"
| "encryption_secrets_loop (secret # rest) =
     bnd (lift (py_len secret)) (\<lambda>n.
       if n \<notin> set [16, 24, 32] then raise (AnsibleModuleError ENCRYPTION_SECRET_MSG)
       else encryption_secrets_loop rest)"

definition check_session_auth_secrets :: "runtime \<Rightarrow> hostvars \<Rightarrow> string \<Rightarrow> unit action" where
  "check_session_auth_secrets rt hostvars host =
     bnd (template_var rt hostvars host ''openshift_master_session_auth_secrets'') (\<lambda>sas.
     bnd (template_var rt hostvars host ''openshift_master_session_encryption_secrets'') (\<lambda>ses.
       if sas = PNone \<and> ses = PNone then ret ()
       else if \<not> (is_list sas \<and> is_list ses) then raise (AnsibleModuleError EQUAL_LENGTH_LISTS_MSG)
       else
         bnd (lift (py_len sas)) (\<lambda>len_sas.
         bnd (lift (py_len ses)) (\<lambda>len_ses.
           if len_sas \<noteq> len_ses then raise (AnsibleModuleError EQUAL_LENGTH_LISTS_MSG)
           else
             bnd (lift (py_iter sas)) (\<lambda>secrets.
             bnd (auth_secrets_loop secrets) (\<lambda>_.
             bnd (lift (py_iter ses)) (\<lambda>secrets.
               encryption_secrets_loop secrets)))))))"

definition NFS_MSG :: string where
  "NFS_MSG =
     ''nfs is an unsupported type for {}. '' @
     ''openshift_enable_unsupported_configurations=True must'' @
     ''be specified to continue with this configuration.''"

fun nfs_loop :: "runtime \<Rightarrow> hostvars \<Rightarrow> string \<Rightarrow> string list \<Rightarrow> unit action" where
  "nfs_loop rt hostvars host [] = ret ()"
| "nfs_loop rt hostvars host (storage # rest) =
     bnd (template_var rt hostvars host storage) (\<lambda>kind.
       if py_eq kind (LStr ''nfs'') then
         raise (AnsibleModuleError (py_format NFS_MSG [storage]))
       else nfs_loop rt hostvars host rest)"

definition check_unsupported_nfs_configs :: "runtime \<Rightarrow> hostvars \<Rightarrow> string \<Rightarrow> unit action" where
  "check_unsupported_nfs_configs rt hostvars host =
     bnd (template_var rt hostvars host ''openshift_enable_unsupported_configurations'')
       (\<lambda>enable_unsupported.
         if to_bool enable_unsupported then ret ()
         else nfs_loop rt hostvars host STORAGE_KIND_TUPLE)"

definition old_keys :: "string list" where
  "old_keys = [''file'', ''fileName'', ''file_name'', ''filename'']"

definition HTPASSWD_MSG :: string where
  "HTPASSWD_MSG =
     ''openshift_master_identity_providers contains a '' @
     ''provider of kind==HTPasswdPasswordIdentityProvider '' @
     ''and {} is set.  Please migrate your htpasswd '' @
     ''files to /etc/origin/master/htpasswd and update your '' @
     ''existing master configs, and remove the {} key'' @
     ''before proceeding.''"

text \<open>
  The test \<^verbatim>\<open>old_key in idp is not None\<close> is a chain of two comparisons:
  \<^verbatim>\<open>(old_key in idp) and (idp is not None)\<close>.
\<close>

fun old_key_loop :: "pyval \<Rightarrow> string list \<Rightarrow> unit action" where
  "old_key_loop idp [] = ret ()"
| "old_key_loop idp (old_key # rest) =
     bnd (lift (py_contains old_key idp)) (\<lambda>found.
       if found \<and> idp \<noteq> PNone then
         raise (AnsibleModuleError (py_format HTPASSWD_MSG [old_key, old_key]))
       else old_key_loop idp rest)"

fun idp_loop :: "pyval list \<Rightarrow> unit action" where
  "idp_loop [] = ret ()"
| "idp_loop (idp # rest) =
     bnd (lift (getitem idp ''kind'')) (\<lambda>kind.
       if py_eq kind (LStr ''HTPasswdPasswordIdentityProvider'') then
         bnd (old_key_loop idp old_keys) (\<lambda>_. idp_loop rest)
       else idp_loop rest)"

definition check_htpasswd_provider :: "runtime \<Rightarrow> hostvars \<Rightarrow> string \<Rightarrow> unit action" where
  "check_htpasswd_provider rt hostvars host =
     bnd (template_var rt hostvars host ''openshift_master_identity_providers'') (\<lambda>idps.
       if \<not> truthy idps then ret ()
       else
         bnd (template_var rt hostvars host ''openshift_master_manage_htpasswd'') (\<lambda>manage_pass.
           if to_bool manage_pass then ret ()
           else bnd (lift (py_iter idps)) idp_loop))"

section \<open>Running the checks\<close>

definition run_checks :: "runtime \<Rightarrow> hostvars \<Rightarrow> string \<Rightarrow> unit action" where
  "run_checks rt hostvars host =
     bnd (template_var rt hostvars host ''ansible_distribution'') (\<lambda>distro.
     bnd (check_openshift_deployment_type rt hostvars host) (\<lambda>odt.
     bnd (check_python_version rt hostvars host distro) (\<lambda>_.
     bnd (check_image_tag_format rt hostvars host odt) (\<lambda>_.
     bnd (network_plugin_check rt hostvars host) (\<lambda>_.
     bnd (check_hostname_vars rt hostvars host) (\<lambda>_.
     bnd (check_session_auth_secrets rt hostvars host) (\<lambda>_.
     bnd (check_unsupported_nfs_configs rt hostvars host) (\<lambda>_.
     check_htpasswd_provider rt hostvars host))))))))"

text \<open>
  The loop of \<^verbatim>\<open>run\<close> over the hosts: an exception of \<^verbatim>\<open>run_checks\<close> is caught and
  raised again as an \<^verbatim>\<open>AnsibleModuleError\<close> that names the last host and variable.
\<close>

fun hosts_loop :: "runtime \<Rightarrow> hostvars \<Rightarrow> string list \<Rightarrow> unit action" where
  "hosts_loop rt hostvars [] = ret ()"
| "hosts_loop rt hostvars (host # rest) = (\<lambda>s.
     case run_checks rt hostvars host s of
       (Inl uncaught_e, s') \<Rightarrow>
         let msg = py_format ''last_checked_host: {}, last_checked_var: {};''
                     [last_checked_host s', last_checked_var s'];
             msg = msg @ exn_str rt uncaught_e
         in (Inl (AnsibleModuleError msg), s')
     | (Inr u, s') \<Rightarrow> hosts_loop rt hostvars rest s')"

text \<open>
  The arguments of \<^verbatim>\<open>run\<close>: the result of the base class, the task parameter
  \<^verbatim>\<open>check_hosts\<close> (absent, or a list of host names) and \<^verbatim>\<open>task_vars\<close> (absent, or a
  dictionary whose entry \<^verbatim>\<open>hostvars\<close> is absent or maps a host to its variables).
\<close>

record task_vars =
  tv_hostvars :: "hostvars option"

definition run ::
  "runtime \<Rightarrow> (string \<rightharpoonup> pyval) \<Rightarrow> string list option \<Rightarrow> task_vars option \<Rightarrow>
     (string \<rightharpoonup> pyval) action" where
  "run rt base_result check_hosts task_vars = (\<lambda>s.
     let result = base_result;
         s = s\<lparr>last_checked_host := ''none''\<rparr>;
         s = s\<lparr>last_checked_var := ''none''\<rparr>
     in case check_hosts of
          None \<Rightarrow> (Inl (AnsibleModuleError ''check_hosts is required''), s)
        | Some [] \<Rightarrow> (Inl (AnsibleModuleError ''check_hosts is required''), s)
        | Some hosts \<Rightarrow>
            (case (case task_vars of None \<Rightarrow> None | Some tv \<Rightarrow> tv_hostvars tv) of
               None \<Rightarrow> (Inl (AnsibleModuleError (py_str rt PNone)), s)
             | Some [] \<Rightarrow> (Inl (AnsibleModuleError (py_str rt (PDict []))), s)
             | Some hostvars \<Rightarrow>
                 (case hosts_loop rt hostvars hosts s of
                    (Inl e, s') \<Rightarrow> (Inl e, s')
                  | (Inr u, s') \<Rightarrow>
                      (Inr (result(''changed'' \<mapsto> PBool False, ''failed'' \<mapsto> PBool False,
                                   ''msg'' \<mapsto> PStr ''Sanity Checks passed'')), s'))))"

section \<open>The resolved view of a host\<close>

text \<open>
  The value \<^verbatim>\<open>template_var\<close> returns for a variable of a host whose variables are
  \<open>vars\<close>: \<^verbatim>\<open>None\<close> when the variable is absent or \<^verbatim>\<open>None\<close>, its templated value
  otherwise.
\<close>

definition resolve :: "runtime \<Rightarrow> (string \<times> pyval) list \<Rightarrow> string \<Rightarrow> pyval" where
  "resolve rt vars varname =
     (case map_of vars varname of
        None \<Rightarrow> PNone
      | Some res \<Rightarrow> if res = PNone then PNone else template rt res)"

text \<open>
  The major version of Python on a host: the outcome of the subscript
  \<^verbatim>\<open>ansible_python['version']['major']\<close> on the resolved fact.
\<close>

definition python_major :: "runtime \<Rightarrow> (string \<times> pyval) list \<Rightarrow> exn + pyval" where
  "python_major rt vars =
     (case getitem (resolve rt vars ''ansible_python'') ''version'' of
        Inl e \<Rightarrow> Inl e
      | Inr version \<Rightarrow> getitem version ''major'')"

text \<open>
  The resolved boolean of a network plugin toggle: the variable, replaced by its declared
  default when it resolves to \<^verbatim>\<open>None\<close>, coerced by \<open>to_bool\<close>.
\<close>

definition toggle :: "runtime \<Rightarrow> (string \<times> pyval) list \<Rightarrow> string \<Rightarrow> bool \<Rightarrow> bool" where
  "toggle rt vars plugin default_val =
     to_bool (if resolve rt vars plugin = PNone then PBool default_val
              else resolve rt vars plugin)"

text \<open>
  A valid auth secret has a length of at least 32, a valid encryption secret a length of
  16, 24 or 32.
\<close>

definition valid_auth_secret :: "pyval \<Rightarrow> bool" where
  "valid_auth_secret x = (case py_len x of Inl e \<Rightarrow> False | Inr n \<Rightarrow> 32 \<le> n)"

definition valid_encryption_secret :: "pyval \<Rightarrow> bool" where
  "valid_encryption_secret x = (case py_len x of Inl e \<Rightarrow> False | Inr n \<Rightarrow> n \<in> {16, 24, 32})"

text \<open>
  A provider record is a dictionary with a \<^verbatim>\<open>kind\<close>; the record offends with a key
  when its kind equals "HTPasswdPasswordIdentityProvider" and it contains the key.
\<close>

definition provider_record :: "pyval \<Rightarrow> bool" where
  "provider_record idp = (case idp of PDict d \<Rightarrow> map_of d ''kind'' \<noteq> None | _ \<Rightarrow> False)"

definition offending :: "pyval \<Rightarrow> string \<Rightarrow> bool" where
  "offending idp k =
     (case idp of
        PDict d \<Rightarrow>
          (case map_of d ''kind'' of
             None \<Rightarrow> False
           | Some kind \<Rightarrow> py_eq kind (LStr ''HTPasswdPasswordIdentityProvider'')) \<and>
          map_of d k \<noteq> None
      | _ \<Rightarrow> False)"

text \<open>An action is stateless when its outcome does not depend on the state it starts from.\<close>

definition stateless :: "'a action \<Rightarrow> bool" where
  "stateless m = (\<forall>s s'. fst (m s) = fst (m s'))"

text \<open>
  The enterprise tag format in words: \<^verbatim>\<open>v\<close>, digits, a dot, digits, then any number of
  groups of a dot and digits, then optionally a dash, digits and any number of groups of a
  dot and digits.
\<close>

definition digits :: "string \<Rightarrow> bool" where
  "digits s = (s \<noteq> [] \<and> list_all (\<lambda>c. c \<in> set ''0123456789'') s)"

definition dotted :: "string list \<Rightarrow> string" where
  "dotted gs = concat (map (\<lambda>g. CHR ''.'' # g) gs)"

definition enterprise_tag :: "string \<Rightarrow> bool" where
  "enterprise_tag t =
     (\<exists>a b gs trail.
        t = ''v'' @ a @ ''.'' @ b @ dotted gs @ trail \<and>
        digits a \<and> digits b \<and> list_all digits gs \<and>
        (trail = [] \<or>
         (\<exists>c hs. trail = ''-'' @ c @ dotted hs \<and> digits c \<and> list_all digits hs)))"

text \<open>A runtime whose templating leaves every value as it is, and the state before a run.\<close>

definition plain_runtime :: runtime where
  "plain_runtime = \<lparr>template = (\<lambda>v. v), str_other = (\<lambda>v. []), str_builtin_exn = (\<lambda>e. [])\<rparr>"

definition fresh_ctx :: ctx where
  "fresh_ctx = \<lparr>last_checked_host = ''none'', last_checked_var = ''none''\<rparr>"

section \<open>Outcomes of actions\<close>

lemma fst_ret: "fst (ret x s) = Inr x"
  by (simp add: ret_def)

lemma fst_raise: "fst (raise e s) = Inl e"
  by (simp add: raise_def)

lemma fst_lift: "fst (lift r s) = r"
  by (simp add: lift_def)

lemma fst_bnd:
  "fst (bnd m f s) = (case fst (m s) of Inl e \<Rightarrow> Inl e | Inr x \<Rightarrow> fst (f x (snd (m s))))"
  by (simp add: bnd_def split: prod.splits sum.splits)

lemma fst_template_var:
  "map_of hostvars host = Some vars \<Longrightarrow>
     fst (template_var rt hostvars host varname s) = Inr (resolve rt vars varname)"
  by (simp add: template_var_def resolve_def Let_def split: option.splits)

lemma fst_template_var_missing:
  "map_of hostvars host = None \<Longrightarrow>
     fst (template_var rt hostvars host varname s) = Inl (KeyError (PStr host))"
  by (simp add: template_var_def Let_def)

section \<open>Boolean coercion\<close>

lemma num_val_one:
  "num_val v = Some 1 \<longleftrightarrow> v = PBool True \<or> v = PInt 1 \<or> v = PFloat (Finite 1)"
  by (cases v rule: num_val.cases) auto

text \<open>
  C9, as stated: \<open>to_bool\<close> returns true if and only if the value is exactly one of
  boolean true, integer 1 and the twelve strings. The membership test of the source
  compares with \<^verbatim>\<open>==\<close>, and the float \<^verbatim>\<open>1.0\<close> equals the integer \<^verbatim>\<open>1\<close>: it is
  coerced to true although it is none of the fourteen representations.
\<close>

theorem to_bool_float_one_counterexample:
  "to_bool (PFloat (Finite 1)) \<and>
   PFloat (Finite 1) \<notin> {PBool True, PInt 1, PStr ''True'', PStr ''1'', PStr ''true'',
      PStr ''TRUE'', PStr ''Yes'', PStr ''yes'', PStr ''Y'', PStr ''y'', PStr ''YES'',
      PStr ''on'', PStr ''ON'', PStr ''On''}"
  by (simp add: to_bool_def py_in_def yes_list_def)

text \<open>
  C9, amended: for every value, \<open>to_bool\<close> returns true if and only if the value is
  boolean true, the integer 1, the float 1.0 (which Python's membership test equates with
  1), or one of the strings "True", "1", "true", "TRUE", "Yes", "yes", "Y", "y", "YES",
  "on", "ON", "On"; every other value returns false.
\<close>

theorem to_bool_iff:
  "to_bool v \<longleftrightarrow>
     v \<in> {PBool True, PInt 1, PFloat (Finite 1), PStr ''True'', PStr ''1'', PStr ''true'',
       PStr ''TRUE'', PStr ''Yes'', PStr ''yes'', PStr ''Y'', PStr ''y'', PStr ''YES'',
       PStr ''on'', PStr ''ON'', PStr ''On''}"
proof (cases "\<exists>s. v = PStr s")
  case True
  then obtain s where "v = PStr s" by blast
  then show ?thesis by (simp add: to_bool_def py_in_def yes_list_def)
next
  case False
  then have "to_bool v \<longleftrightarrow> num_val v = Some 1"
    by (cases v) (simp_all add: to_bool_def py_in_def yes_list_def)
  with False show ?thesis
    unfolding num_val_one by (cases v) simp_all
qed

theorem to_bool_iff_witness:
  "to_bool (PStr ''yes'') \<and> to_bool (PBool True) \<and> \<not> to_bool (PStr ''false'') \<and>
   \<not> to_bool (PInt 2) \<and> \<not> to_bool PNone"
  using to_bool_iff [of "PStr ''yes''"] to_bool_iff [of "PBool True"]
    to_bool_iff [of "PStr ''false''"] to_bool_iff [of "PInt 2"] to_bool_iff [of PNone]
  by simp

section \<open>The deployment type\<close>

text \<open>
  C2: for every resolved value of \<^verbatim>\<open>openshift_deployment_type\<close> that is not one of
  "origin" and "openshift-enterprise" (an absent variable resolves to \<^verbatim>\<open>None\<close>),
  \<open>check_openshift_deployment_type\<close> fails with a message that lists the two valid
  choices; for each of the two valid values it passes and returns that value.
\<close>

theorem check_openshift_deployment_type_spec:
  assumes "map_of hostvars host = Some vars"
  shows "fst (check_openshift_deployment_type rt hostvars host s) =
    (if resolve rt vars ''openshift_deployment_type'' \<in>
          {PStr ''origin'', PStr ''openshift-enterprise''}
     then Inr (resolve rt vars ''openshift_deployment_type'')
     else Inl (AnsibleModuleError
       ''openshift_deployment_type must be defined and one of origin, openshift-enterprise''))"
  using assms
  by (simp add: check_openshift_deployment_type_def fst_bnd fst_template_var fst_ret fst_raise
      py_in_def VALID_DEPLOYMENT_TYPES_def Let_def)

theorem check_openshift_deployment_type_spec_witness:
  "fst (check_openshift_deployment_type plain_runtime
          [(''host1'', [(''openshift_deployment_type'', PStr ''origin'')])] ''host1'' fresh_ctx)
     = Inr (PStr ''origin'') \<and>
   fst (check_openshift_deployment_type plain_runtime
          [(''host1'', [(''openshift_deployment_type'', PStr ''openshift-enterprise'')])]
          ''host1'' fresh_ctx)
     = Inr (PStr ''openshift-enterprise'') \<and>
   fst (check_openshift_deployment_type plain_runtime
          [(''host1'', [(''openshift_deployment_type'', PStr ''atomic'')])] ''host1'' fresh_ctx)
     = Inl (AnsibleModuleError
         ''openshift_deployment_type must be defined and one of origin, openshift-enterprise'') \<and>
   fst (check_openshift_deployment_type plain_runtime [(''host1'', [])] ''host1'' fresh_ctx)
     = Inl (AnsibleModuleError
         ''openshift_deployment_type must be defined and one of origin, openshift-enterprise'')"
  using
    check_openshift_deployment_type_spec [of
      "[(''host1'', [(''openshift_deployment_type'', PStr ''origin'')])]" "''host1''"
      "[(''openshift_deployment_type'', PStr ''origin'')]" plain_runtime fresh_ctx]
    check_openshift_deployment_type_spec [of
      "[(''host1'', [(''openshift_deployment_type'', PStr ''openshift-enterprise'')])]" "''host1''"
      "[(''openshift_deployment_type'', PStr ''openshift-enterprise'')]" plain_runtime fresh_ctx]
    check_openshift_deployment_type_spec [of
      "[(''host1'', [(''openshift_deployment_type'', PStr ''atomic'')])]" "''host1''"
      "[(''openshift_deployment_type'', PStr ''atomic'')]" plain_runtime fresh_ctx]
    check_openshift_deployment_type_spec [of
      "[(''host1'', [])]" "''host1''" "[]" plain_runtime fresh_ctx]
  by (simp add: resolve_def plain_runtime_def)

section \<open>The python version\<close>

lemma getitem_error: "getitem v k = Inl e \<Longrightarrow> e = TypeError \<or> e = KeyError (PStr k)"
  by (cases v) (simp_all split: option.splits)

lemma python_major_error:
  "python_major rt vars = Inl e \<Longrightarrow> e = TypeError \<or> (\<exists>k. e = KeyError k)"
  unfolding python_major_def
  by (auto split: sum.splits dest: getitem_error)

lemma check_python_version_outcome:
  assumes "map_of hostvars host = Some vars"
  shows "fst (check_python_version rt hostvars host distro s) =
    (case python_major rt vars of
       Inl e \<Rightarrow> Inl e
     | Inr major \<Rightarrow>
         if distro = PStr ''Fedora'' \<and> \<not> py_eq major (LInt 3)
         then Inl (AnsibleModuleError
           (''openshift-ansible requires Python 3 for Fedora;'' @
            '' For information on enabling Python 3 with Ansible,'' @
            '' see https://docs.ansible.com/ansible/python_3_support.html''))
         else Inr ())"
  using assms
  by (simp add: check_python_version_def python_major_def fst_bnd fst_template_var fst_ret
      fst_raise fst_lift Let_def split: sum.splits)

lemma check_python_version_no_fact:
  assumes "map_of hostvars host = Some vars"
    and "resolve rt vars ''ansible_python'' = PNone"
  shows "fst (check_python_version rt hostvars host distro s) = Inl TypeError"
  using assms
  by (simp add: check_python_version_def fst_bnd fst_template_var fst_lift)

text \<open>
  C4, as stated: for every distro other than "Fedora", \<open>check_python_version\<close> never
  raises. Both branches subscript \<^verbatim>\<open>ansible_python['version']['major']\<close>, and on a
  host without the fact \<^verbatim>\<open>ansible_python\<close> the variable resolves to \<^verbatim>\<open>None\<close>: the
  subscript raises \<^verbatim>\<open>TypeError\<close>, here for the distro "CentOS".
\<close>

theorem check_python_version_no_fact_counterexample:
  "fst (check_python_version plain_runtime [(''host1'', [])] ''host1'' (PStr ''CentOS'')
          fresh_ctx) = Inl TypeError"
proof -
  have h: "map_of [(''host1'', [])] ''host1'' = Some ([] :: (string \<times> pyval) list)"
    by simp
  have r: "resolve plain_runtime [] ''ansible_python'' = PNone"
    by (simp add: resolve_def)
  show ?thesis
    by (rule check_python_version_no_fact [OF h r])
qed

text \<open>
  C4, amended: with \<open>python_major\<close> the outcome of the subscript
  \<^verbatim>\<open>ansible_python['version']['major']\<close> on the resolved fact,
  \<open>check_python_version\<close> raises the subscript's exception (a \<^verbatim>\<open>TypeError\<close> or a
  \<^verbatim>\<open>KeyError\<close>) for every distro when the host has no such major version; when it has
  one, the check raises if and only if the distro equals "Fedora" and the major version
  is not 3, and for every other distro it returns without raising, whatever the major
  version is: the message built for a major version other than 2 is dropped. So the
  check signals an \<^verbatim>\<open>AnsibleModuleError\<close> if and only if the distro equals "Fedora" and
  the host has a major version that is not 3.
\<close>

theorem check_python_version_spec:
  assumes "map_of hostvars host = Some vars"
  shows "fst (check_python_version rt hostvars host distro s) =
           (case python_major rt vars of
              Inl e \<Rightarrow> Inl e
            | Inr major \<Rightarrow>
                if distro = PStr ''Fedora'' \<and> \<not> py_eq major (LInt 3)
                then Inl (AnsibleModuleError
                  (''openshift-ansible requires Python 3 for Fedora;'' @
                   '' For information on enabling Python 3 with Ansible,'' @
                   '' see https://docs.ansible.com/ansible/python_3_support.html''))
                else Inr ()) \<and>
         ((\<exists>m. fst (check_python_version rt hostvars host distro s) = Inl (AnsibleModuleError m)) \<longleftrightarrow>
            distro = PStr ''Fedora'' \<and>
            (\<exists>major. python_major rt vars = Inr major \<and> \<not> py_eq major (LInt 3))) \<and>
         (\<forall>e. python_major rt vars = Inl e \<longrightarrow> e = TypeError \<or> (\<exists>k. e = KeyError k))"
proof (intro conjI)
  note out = check_python_version_outcome [OF assms, of rt distro s]
  show "fst (check_python_version rt hostvars host distro s) =
           (case python_major rt vars of
              Inl e \<Rightarrow> Inl e
            | Inr major \<Rightarrow>
                if distro = PStr ''Fedora'' \<and> \<not> py_eq major (LInt 3)
                then Inl (AnsibleModuleError
                  (''openshift-ansible requires Python 3 for Fedora;'' @
                   '' For information on enabling Python 3 with Ansible,'' @
                   '' see https://docs.ansible.com/ansible/python_3_support.html''))
                else Inr ())"
    by (rule out)
  show "(\<exists>m. fst (check_python_version rt hostvars host distro s) = Inl (AnsibleModuleError m)) \<longleftrightarrow>
            distro = PStr ''Fedora'' \<and>
            (\<exists>major. python_major rt vars = Inr major \<and> \<not> py_eq major (LInt 3))"
  proof (cases "python_major rt vars")
    case (Inl e)
    with python_major_error [of rt vars e] show ?thesis
      unfolding out by auto
  next
    case (Inr major)
    then show ?thesis
      unfolding out by simp
  qed
  show "\<forall>e. python_major rt vars = Inl e \<longrightarrow> e = TypeError \<or> (\<exists>k. e = KeyError k)"
    using python_major_error [of rt vars] by blast
qed

theorem check_python_version_spec_witness:
  "fst (check_python_version plain_runtime
          [(''host1'', [(''ansible_python'', PDict [(''version'', PDict [(''major'', PInt 2)])])])]
          ''host1'' (PStr ''Fedora'') fresh_ctx) =
     Inl (AnsibleModuleError
       (''openshift-ansible requires Python 3 for Fedora;'' @
        '' For information on enabling Python 3 with Ansible,'' @
        '' see https://docs.ansible.com/ansible/python_3_support.html'')) \<and>
   fst (check_python_version plain_runtime
          [(''host1'', [(''ansible_python'', PDict [(''version'', PDict [(''major'', PInt 3)])])])]
          ''host1'' (PStr ''Fedora'') fresh_ctx) = Inr () \<and>
   fst (check_python_version plain_runtime
          [(''host1'', [(''ansible_python'', PDict [(''version'', PDict [(''major'', PInt 3)])])])]
          ''host1'' (PStr ''CentOS'') fresh_ctx) = Inr () \<and>
   fst (check_python_version plain_runtime
          [(''host1'', [(''ansible_python'', PDict [(''version'', PDict [])])])]
          ''host1'' (PStr ''Fedora'') fresh_ctx) = Inl (KeyError (PStr ''major''))"
proof -
  have h: "map_of [(''host1'', vars)] ''host1'' = Some vars" for vars :: "(string \<times> pyval) list"
    by simp
  have m: "python_major plain_runtime
      [(''ansible_python'', PDict [(''version'', PDict [(''major'', PInt n)])])] = Inr (PInt n)" for n
    by (simp add: python_major_def resolve_def plain_runtime_def)
  have k: "python_major plain_runtime [(''ansible_python'', PDict [(''version'', PDict [])])] =
      Inl (KeyError (PStr ''major''))"
    by (simp add: python_major_def resolve_def plain_runtime_def)
  show ?thesis
    using check_python_version_spec [OF h, of plain_runtime
        "[(''ansible_python'', PDict [(''version'', PDict [(''major'', PInt 2)])])]"
        "PStr ''Fedora''" fresh_ctx, THEN conjunct1]
      check_python_version_spec [OF h, of plain_runtime
        "[(''ansible_python'', PDict [(''version'', PDict [(''major'', PInt 3)])])]"
        "PStr ''Fedora''" fresh_ctx, THEN conjunct1]
      check_python_version_spec [OF h, of plain_runtime
        "[(''ansible_python'', PDict [(''version'', PDict [(''major'', PInt 3)])])]"
        "PStr ''CentOS''" fresh_ctx, THEN conjunct1]
      check_python_version_spec [OF h, of plain_runtime
        "[(''ansible_python'', PDict [(''version'', PDict [])])]"
        "PStr ''Fedora''" fresh_ctx, THEN conjunct1]
    by (simp add: m k)
qed

section \<open>The image tag\<close>

lemma py_format_enterprise:
  "py_format ENTERPRISE_TAG_REGEX_ERROR [t] =
     ''openshift_image_tag must be in the format'' @ [CHR 0x0A] @
     ''v#.#[.#[.#]]. Examples: v1.2, v3.4.1, v3.5.1.3,'' @ [CHR 0x0A] @
     ''v3.5.1.3.4, v1.2-1, v1.2.3-4, v1.2.3-4.5, v1.2.3-4.5.6'' @ [CHR 0x0A] @
     ''You specified openshift_image_tag='' @ t"
  by (simp add: ENTERPRISE_TAG_REGEX_ERROR_def)

lemma enterprise_3_5: "\<not> re_match (re ENTERPRISE_TAG_REGEX) ''3.5''"
  by (simp add: re_match_def ENTERPRISE_TAG_REGEX_def cats_def star.simps)

lemma origin_3_5: "re_match (re ORIGIN_TAG_REGEX) ''3.5''"
  by (simp add: re_match_def ORIGIN_TAG_REGEX_def cats_def star.simps)

lemma enterprise_example: "re_match (re ENTERPRISE_TAG_REGEX) ''v3.5.1-4.5''"
  by (simp add: re_match_def ENTERPRISE_TAG_REGEX_def cats_def star.simps)

lemma image_tag_regex_simps:
  "image_tag_regex (PStr ''origin'') = Inr ORIGIN_TAG_REGEX"
  "image_tag_regex (PStr ''openshift-enterprise'') = Inr ENTERPRISE_TAG_REGEX"
  by (simp_all add: IMAGE_TAG_REGEX_def)

lemma check_image_tag_format_str:
  assumes "map_of hostvars host = Some vars"
    and "resolve rt vars ''openshift_image_tag'' = PStr t"
    and "image_tag_regex odt = Inr entry"
  shows "fst (check_image_tag_format rt hostvars host odt s) =
    (if t = [] \<or> t = ''latest'' \<or> re_match (re entry) t then Inr ()
     else Inl (AnsibleModuleError (py_format (error_msg entry) [t])))"
  using assms
  by (simp add: check_image_tag_format_def fst_bnd fst_template_var fst_ret fst_raise fst_lift Let_def)

lemma map_of_host1: "map_of [(''host1'', vars)] ''host1'' = Some vars"
  by simp

lemma resolve_plain_single:
  "v \<noteq> PNone \<Longrightarrow> resolve plain_runtime [(name, v)] name = v"
  by (simp add: resolve_def plain_runtime_def)

text \<open>Every tag of the enterprise format in words is matched by the enterprise pattern.\<close>

lemma star_refl: "s \<in> set (star f s)"
  by (subst star.simps) simp

lemma star_step:
  assumes "s1 \<in> set (f s0)" and "length s1 < length s0" and "s2 \<in> set (star f s1)"
  shows "s2 \<in> set (star f s0)"
  using assms by (subst star.simps) auto

lemma rests_Digit_cons:
  "c \<in> set ''0123456789'' \<Longrightarrow> rests Digit n (c # s) = [s]"
  by simp

lemma star_digits:
  "list_all (\<lambda>c. c \<in> set ''0123456789'') a \<Longrightarrow> s \<in> set (star (rests Digit n) (a @ s))"
proof (induction a)
  case Nil
  show ?case by (simp add: star_refl)
next
  case (Cons c a)
  from Cons.prems have c: "c \<in> set ''0123456789''"
    and "list_all (\<lambda>c. c \<in> set ''0123456789'') a"
    by simp_all
  from Cons.IH [OF this(2)] have a: "s \<in> set (star (rests Digit n) (a @ s))" .
  have m: "a @ s \<in> set (rests Digit n (c # a @ s))"
    using c by (simp only: rests_Digit_cons) simp
  have len: "length (a @ s) < length (c # a @ s)"
    by simp
  show ?case
    unfolding append_Cons by (rule star_step [OF m len a])
qed

lemma rests_Plus_digits:
  assumes "digits a"
  shows "s \<in> set (rests (Plus Digit) n (a @ s))"
proof -
  from assms obtain c a' where a: "a = c # a'" "c \<in> set ''0123456789''"
    "list_all (\<lambda>c. c \<in> set ''0123456789'') a'"
    by (cases a) (auto simp: digits_def)
  have "rests Digit n (a @ s) = [a' @ s]"
    unfolding a(1) using a(2) by (simp only: append_Cons rests_Digit_cons)
  with star_digits [OF a(3), of s n] show ?thesis
    by simp
qed

lemma rests_Cat:
  "s1 \<in> set (rests a n s) \<Longrightarrow> s2 \<in> set (rests b n s1) \<Longrightarrow> s2 \<in> set (rests (Cat a b) n s)"
  by auto

lemma rests_Lit: "s \<in> set (rests (Lit c) n (c # s))"
  by simp

lemma rests_dot_group:
  assumes "digits g"
  shows "s \<in> set (rests (Group (cats [Lit CHR ''.'', Plus Digit])) n (CHR ''.'' # g @ s))"
proof -
  have "s \<in> set (rests (Cat (Lit CHR ''.'') (Plus Digit)) n (CHR ''.'' # g @ s))"
    by (rule rests_Cat [OF rests_Lit rests_Plus_digits [OF assms]])
  then show ?thesis by (simp add: cats_def)
qed

lemma star_dotted:
  assumes "list_all digits gs"
  shows "s \<in> set (star (rests (Group (cats [Lit CHR ''.'', Plus Digit])) n) (dotted gs @ s))"
  using assms
proof (induction gs)
  case Nil
  show ?case by (simp add: dotted_def star_refl)
next
  case (Cons g gs)
  from Cons.prems have g: "digits g" and "list_all digits gs"
    by simp_all
  from Cons.IH [OF this(2)]
  have rest: "s \<in> set (star (rests (Group (cats [Lit CHR ''.'', Plus Digit])) n) (dotted gs @ s))" .
  have d: "dotted (g # gs) @ s = CHR ''.'' # g @ dotted gs @ s"
    by (simp add: dotted_def)
  have m: "dotted gs @ s \<in>
      set (rests (Group (cats [Lit CHR ''.'', Plus Digit])) n (CHR ''.'' # g @ dotted gs @ s))"
    by (rule rests_dot_group [OF g])
  have len: "length (dotted gs @ s) < length (CHR ''.'' # g @ dotted gs @ s)"
    by simp
  show ?case
    unfolding d by (rule star_step [OF m len rest])
qed

lemma rests_suffix:
  assumes "trail = [] \<or>
           (\<exists>c hs. trail = ''-'' @ c @ dotted hs \<and> digits c \<and> list_all digits hs)"
  shows "s \<in> set (rests (Opt (Group (cats [Lit CHR ''-'', Plus Digit,
                     Star (Group (cats [Lit CHR ''.'', Plus Digit]))]))) n (trail @ s))"
proof (cases "trail = []")
  case True
  then show ?thesis by simp
next
  case False
  with assms obtain c hs where sfx: "trail = ''-'' @ c @ dotted hs" "digits c" "list_all digits hs"
    by blast
  let ?dot = "Group (cats [Lit CHR ''.'', Plus Digit])"
  have 1: "c @ dotted hs @ s \<in> set (rests (Lit CHR ''-'') n (trail @ s))"
    unfolding sfx(1) by simp
  have 2: "dotted hs @ s \<in> set (rests (Plus Digit) n (c @ dotted hs @ s))"
    by (rule rests_Plus_digits [OF sfx(2)])
  have 3: "s \<in> set (rests (Star ?dot) n (dotted hs @ s))"
    using star_dotted [OF sfx(3), of s n] by simp
  have "s \<in> set (rests (Cat (Lit CHR ''-'') (Cat (Plus Digit) (Star ?dot))) n (trail @ s))"
    by (rule rests_Cat [OF 1 rests_Cat [OF 2 3]])
  then have "s \<in> set (rests (Group (cats [Lit CHR ''-'', Plus Digit, Star ?dot])) n (trail @ s))"
    by (simp add: cats_def)
  then show ?thesis by simp
qed

lemma enterprise_tag_matches:
  assumes "enterprise_tag t"
  shows "re_match (re ENTERPRISE_TAG_REGEX) t"
proof -
  from assms obtain a b gs trail where
    t: "t = ''v'' @ a @ ''.'' @ b @ dotted gs @ trail" and a: "digits a" and b: "digits b"
    and gs: "list_all digits gs"
    and sfx: "trail = [] \<or>
              (\<exists>c hs. trail = ''-'' @ c @ dotted hs \<and> digits c \<and> list_all digits hs)"
    unfolding enterprise_tag_def by blast
  let ?n = "length t"
  let ?dot = "Group (cats [Lit CHR ''.'', Plus Digit])"
  let ?opt = "Opt (Group (cats [Lit CHR ''-'', Plus Digit, Star ?dot]))"
  have 0: "t \<in> set (rests Bol ?n t)" by simp
  have 1: "a @ ''.'' @ b @ dotted gs @ trail \<in> set (rests (Lit CHR ''v'') ?n t)"
    unfolding t by simp
  have 2: "''.'' @ b @ dotted gs @ trail \<in>
      set (rests (Plus Digit) ?n (a @ ''.'' @ b @ dotted gs @ trail))"
    by (rule rests_Plus_digits [OF a])
  have 3: "b @ dotted gs @ trail \<in> set (rests (Lit CHR ''.'') ?n (''.'' @ b @ dotted gs @ trail))"
    by simp
  have 4: "dotted gs @ trail \<in> set (rests (Plus Digit) ?n (b @ dotted gs @ trail))"
    by (rule rests_Plus_digits [OF b])
  have 5: "trail \<in> set (rests (Star ?dot) ?n (dotted gs @ trail))"
    using star_dotted [OF gs, of trail ?n] by simp
  have 6: "[] \<in> set (rests ?opt ?n trail)"
    using rests_suffix [OF sfx, of "[]" ?n] by simp
  have 7: "[] \<in> set (rests Eol ?n [])" by simp
  have "[] \<in> set (rests (Cat Bol (Cat (Lit CHR ''v'') (Cat (Plus Digit) (Cat (Lit CHR ''.'')
      (Cat (Plus Digit) (Cat (Star ?dot) (Cat ?opt Eol))))))) ?n t)"
    by (rule rests_Cat [OF 0 rests_Cat [OF 1 rests_Cat [OF 2 rests_Cat [OF 3 rests_Cat [OF 4
          rests_Cat [OF 5 rests_Cat [OF 6 7]]]]]]])
  then have "[] \<in> set (rests (re ENTERPRISE_TAG_REGEX) ?n t)"
    by (simp add: ENTERPRISE_TAG_REGEX_def cats_def)
  then show ?thesis
    unfolding re_match_def by auto
qed

lemma enterprise_tag_example: "enterprise_tag ''v3.5.1-4.5''"
proof -
  have "''v3.5.1-4.5'' = ''v'' @ ''3'' @ ''.'' @ ''5'' @ dotted [''1''] @ (''-'' @ ''4'' @ dotted [''5''])"
    by (simp add: dotted_def)
  moreover have "digits ''3''" "digits ''5''" "list_all digits [''1'']" "digits ''4''"
    "list_all digits [''5'']"
    by (simp_all add: digits_def)
  ultimately show ?thesis
    unfolding enterprise_tag_def by blast
qed

text \<open>
  C3, as stated: \<open>check_image_tag_format\<close> fails on the tag "3.5" under both deployment
  types. The origin pattern \<^verbatim>\<open>(^v?\d+\.\d+.*)\<close> makes the leading v optional, so the
  tag "3.5" passes under "origin".
\<close>

theorem check_image_tag_format_origin_counterexample:
  "fst (check_image_tag_format plain_runtime
          [(''host1'', [(''openshift_image_tag'', PStr ''3.5'')])] ''host1'' (PStr ''origin'')
          fresh_ctx) = Inr ()"
proof -
  have t: "resolve plain_runtime [(''openshift_image_tag'', PStr ''3.5'')] ''openshift_image_tag'' =
      PStr ''3.5''"
    by (simp add: resolve_plain_single)
  show ?thesis
    using check_image_tag_format_str [OF map_of_host1 t image_tag_regex_simps(1)] origin_3_5
    by simp
qed

text \<open>
  C3, amended: \<open>check_image_tag_format\<close> fails on the tag "3.5" (no leading v) under
  "openshift-enterprise", with the enterprise message that embeds the tag, and passes on
  it under "origin", whose pattern makes the leading v optional; under
  "openshift-enterprise" it passes on every tag that matches the enterprise pattern, so
  on every tag of the enterprise format in words, and "v3.5.1-4.5" is such a tag.
\<close>

theorem check_image_tag_format_patterns:
  assumes "map_of hostvars host = Some vars"
    and "resolve rt vars ''openshift_image_tag'' = PStr t"
  shows "(t = ''3.5'' \<longrightarrow>
            fst (check_image_tag_format rt hostvars host (PStr ''openshift-enterprise'') s) =
              Inl (AnsibleModuleError
                (''openshift_image_tag must be in the format'' @ [CHR 0x0A] @
                 ''v#.#[.#[.#]]. Examples: v1.2, v3.4.1, v3.5.1.3,'' @ [CHR 0x0A] @
                 ''v3.5.1.3.4, v1.2-1, v1.2.3-4, v1.2.3-4.5, v1.2.3-4.5.6'' @ [CHR 0x0A] @
                 ''You specified openshift_image_tag=3.5'')) \<and>
            fst (check_image_tag_format rt hostvars host (PStr ''origin'') s) = Inr ()) \<and>
         (re_match (re ENTERPRISE_TAG_REGEX) t \<or> enterprise_tag t \<longrightarrow>
            fst (check_image_tag_format rt hostvars host (PStr ''openshift-enterprise'') s) = Inr ()) \<and>
         re_match (re ENTERPRISE_TAG_REGEX) ''v3.5.1-4.5'' \<and> enterprise_tag ''v3.5.1-4.5''"
proof -
  have ent: "fst (check_image_tag_format rt hostvars host (PStr ''openshift-enterprise'') s) =
    (if t = [] \<or> t = ''latest'' \<or> re_match (re ENTERPRISE_TAG_REGEX) t then Inr ()
     else Inl (AnsibleModuleError (py_format (error_msg ENTERPRISE_TAG_REGEX) [t])))"
    using assms by (rule check_image_tag_format_str) (rule image_tag_regex_simps)
  have ori: "fst (check_image_tag_format rt hostvars host (PStr ''origin'') s) =
    (if t = [] \<or> t = ''latest'' \<or> re_match (re ORIGIN_TAG_REGEX) t then Inr ()
     else Inl (AnsibleModuleError (py_format (error_msg ORIGIN_TAG_REGEX) [t])))"
    using assms by (rule check_image_tag_format_str) (rule image_tag_regex_simps)
  have msg: "error_msg ENTERPRISE_TAG_REGEX = ENTERPRISE_TAG_REGEX_ERROR"
    by (simp add: ENTERPRISE_TAG_REGEX_def)
  have a: "t = ''3.5'' \<longrightarrow>
            fst (check_image_tag_format rt hostvars host (PStr ''openshift-enterprise'') s) =
              Inl (AnsibleModuleError
                (''openshift_image_tag must be in the format'' @ [CHR 0x0A] @
                 ''v#.#[.#[.#]]. Examples: v1.2, v3.4.1, v3.5.1.3,'' @ [CHR 0x0A] @
                 ''v3.5.1.3.4, v1.2-1, v1.2.3-4, v1.2.3-4.5, v1.2.3-4.5.6'' @ [CHR 0x0A] @
                 ''You specified openshift_image_tag=3.5''))"
    using enterprise_3_5 py_format_enterprise [of "''3.5''"] unfolding ent msg by simp
  have b: "t = ''3.5'' \<longrightarrow> fst (check_image_tag_format rt hostvars host (PStr ''origin'') s) = Inr ()"
    using origin_3_5 unfolding ori by simp
  have c: "re_match (re ENTERPRISE_TAG_REGEX) t \<or> enterprise_tag t \<longrightarrow>
            fst (check_image_tag_format rt hostvars host (PStr ''openshift-enterprise'') s) = Inr ()"
    unfolding ent using enterprise_tag_matches [of t] by auto
  from a b c enterprise_example enterprise_tag_example show ?thesis by blast
qed

theorem check_image_tag_format_patterns_witness:
  "fst (check_image_tag_format plain_runtime
          [(''host1'', [(''openshift_image_tag'', PStr ''3.5'')])] ''host1''
          (PStr ''openshift-enterprise'') fresh_ctx) =
     Inl (AnsibleModuleError
       (''openshift_image_tag must be in the format'' @ [CHR 0x0A] @
        ''v#.#[.#[.#]]. Examples: v1.2, v3.4.1, v3.5.1.3,'' @ [CHR 0x0A] @
        ''v3.5.1.3.4, v1.2-1, v1.2.3-4, v1.2.3-4.5, v1.2.3-4.5.6'' @ [CHR 0x0A] @
        ''You specified openshift_image_tag=3.5'')) \<and>
   fst (check_image_tag_format plain_runtime
          [(''host1'', [(''openshift_image_tag'', PStr ''v3.5.1-4.5'')])] ''host1''
          (PStr ''openshift-enterprise'') fresh_ctx) = Inr ()"
proof -
  have t1: "resolve plain_runtime [(''openshift_image_tag'', PStr ''3.5'')] ''openshift_image_tag'' =
      PStr ''3.5''"
    by (simp add: resolve_plain_single)
  have t2: "resolve plain_runtime [(''openshift_image_tag'', PStr ''v3.5.1-4.5'')]
      ''openshift_image_tag'' = PStr ''v3.5.1-4.5''"
    by (simp add: resolve_plain_single)
  show ?thesis
    using check_image_tag_format_patterns [OF map_of_host1 t1, of fresh_ctx]
      check_image_tag_format_patterns [OF map_of_host1 t2, of fresh_ctx]
    by simp
qed

text \<open>
  C10: \<open>check_image_tag_format\<close> passes for every falsy resolved value of
  \<^verbatim>\<open>openshift_image_tag\<close> (the absent tag, the empty string, false and 0 among them)
  and for the literal "latest", whatever the deployment type it is given, also one that
  is no key of the table of patterns: the table is not consulted.
\<close>

theorem check_image_tag_format_falsy:
  assumes "map_of hostvars host = Some vars"
    and "resolve rt vars ''openshift_image_tag'' \<in>
           {PNone, PStr [], PBool False, PInt 0, PStr ''latest''} \<or>
         \<not> truthy (resolve rt vars ''openshift_image_tag'')"
  shows "fst (check_image_tag_format rt hostvars host odt s) = Inr ()"
proof -
  let ?tag = "resolve rt vars ''openshift_image_tag''"
  from assms(2) have "\<not> truthy ?tag \<or> py_eq ?tag (LStr ''latest'')"
    by auto
  with assms(1) show ?thesis
    by (simp add: check_image_tag_format_def fst_bnd fst_template_var fst_ret)
qed

theorem check_image_tag_format_falsy_witness:
  "fst (check_image_tag_format plain_runtime [(''host1'', [])] ''host1''
          (PStr ''no-such-type'') fresh_ctx) = Inr () \<and>
   fst (check_image_tag_format plain_runtime [(''host1'', [(''openshift_image_tag'', PStr [])])]
          ''host1'' (PStr ''no-such-type'') fresh_ctx) = Inr () \<and>
   fst (check_image_tag_format plain_runtime [(''host1'', [(''openshift_image_tag'', PBool False)])]
          ''host1'' (PList []) fresh_ctx) = Inr () \<and>
   fst (check_image_tag_format plain_runtime [(''host1'', [(''openshift_image_tag'', PInt 0)])]
          ''host1'' PNone fresh_ctx) = Inr () \<and>
   fst (check_image_tag_format plain_runtime
          [(''host1'', [(''openshift_image_tag'', PFloat (Finite 0))])]
          ''host1'' PNone fresh_ctx) = Inr () \<and>
   image_tag_regex (PStr ''no-such-type'') = Inl (KeyError (PStr ''no-such-type''))"
  using
    check_image_tag_format_falsy [OF map_of_host1, of plain_runtime "[]"
      "PStr ''no-such-type''" fresh_ctx]
    check_image_tag_format_falsy [OF map_of_host1, of plain_runtime
      "[(''openshift_image_tag'', PStr [])]" "PStr ''no-such-type''" fresh_ctx]
    check_image_tag_format_falsy [OF map_of_host1, of plain_runtime
      "[(''openshift_image_tag'', PBool False)]" "PList []" fresh_ctx]
    check_image_tag_format_falsy [OF map_of_host1, of plain_runtime
      "[(''openshift_image_tag'', PInt 0)]" PNone fresh_ctx]
    check_image_tag_format_falsy [OF map_of_host1, of plain_runtime
      "[(''openshift_image_tag'', PFloat (Finite 0))]" PNone fresh_ctx]
  by (simp add: resolve_def plain_runtime_def IMAGE_TAG_REGEX_def)

section \<open>The network plugins\<close>

lemma py_sum_count: "py_sum bs = int (length (filter id bs))"
  by (induction bs) (simp_all add: py_sum_def)

lemma network_plugin_loop_result:
  assumes "map_of hostvars host = Some vars"
  shows "fst (network_plugin_loop rt hostvars host ps res s) =
           Inr (res @ map (\<lambda>p. toggle rt vars (fst p) (snd p)) ps)"
  using assms
proof (induction ps arbitrary: res s)
  case Nil
  then show ?case by (simp add: fst_ret)
next
  case (Cons p ps)
  obtain plugin default_val where p: "p = (plugin, default_val)" by (cases p)
  show ?case using Cons
    by (simp add: p fst_bnd fst_template_var toggle_def Let_def)
qed

lemma py_format_network:
  "py_format ''Host Checked: {} Only one of must be true. Found: {}'' [h, r] =
     ''Host Checked: '' @ h @ '' Only one of must be true. Found: '' @ r"
  by simp

text \<open>
  C6: \<open>network_plugin_check\<close> fails if and only if two or more of the six toggles
  resolve to true, each toggle being its variable, replaced by its declared default when
  absent (true for \<^verbatim>\<open>openshift_use_openshift_sdn\<close>, false for the other five) and
  coerced by \<open>to_bool\<close>; the message names the host and lists the six (variable,
  boolean) pairs in the order of their declaration; with no or one toggle true it passes.
\<close>

theorem network_plugin_check_spec:
  assumes "map_of hostvars host = Some vars"
  shows "fst (network_plugin_check rt hostvars host s) =
    (let found =
       [(''openshift_use_openshift_sdn'', toggle rt vars ''openshift_use_openshift_sdn'' True),
        (''openshift_use_flannel'', toggle rt vars ''openshift_use_flannel'' False),
        (''openshift_use_nuage'', toggle rt vars ''openshift_use_nuage'' False),
        (''openshift_use_contiv'', toggle rt vars ''openshift_use_contiv'' False),
        (''openshift_use_calico'', toggle rt vars ''openshift_use_calico'' False),
        (''openshift_use_kuryr'', toggle rt vars ''openshift_use_kuryr'' False)]
     in if 2 \<le> length (filter snd found)
        then Inl (AnsibleModuleError
               (''Host Checked: '' @ host @ '' Only one of must be true. Found: '' @
                repr_pairs found))
        else Inr ())"
proof -
  let ?toggles = "map (\<lambda>p. toggle rt vars (fst p) (snd p)) NET_PLUGIN_LIST"
  let ?found =
    "[(''openshift_use_openshift_sdn'', toggle rt vars ''openshift_use_openshift_sdn'' True),
      (''openshift_use_flannel'', toggle rt vars ''openshift_use_flannel'' False),
      (''openshift_use_nuage'', toggle rt vars ''openshift_use_nuage'' False),
      (''openshift_use_contiv'', toggle rt vars ''openshift_use_contiv'' False),
      (''openshift_use_calico'', toggle rt vars ''openshift_use_calico'' False),
      (''openshift_use_kuryr'', toggle rt vars ''openshift_use_kuryr'' False)]"
  have loop: "fst (network_plugin_loop rt hostvars host NET_PLUGIN_LIST [] s') = Inr ?toggles" for s'
    using network_plugin_loop_result [OF assms, of rt NET_PLUGIN_LIST "[]"] by simp
  have "(\<not> (int n = 0 \<or> int n = 1)) = (2 \<le> n)" for n :: nat
    by arith
  then have two: "(\<not> (py_sum bs = 0 \<or> py_sum bs = 1)) = (2 \<le> length (filter id bs))" for bs
    unfolding py_sum_count .
  have res: "fst (network_plugin_check rt hostvars host s) =
      (if \<not> (py_sum ?toggles = 0 \<or> py_sum ?toggles = 1)
       then Inl (AnsibleModuleError
              (''Host Checked: '' @ host @ '' Only one of must be true. Found: '' @
               repr_pairs (zip (map fst NET_PLUGIN_LIST) ?toggles)))
       else Inr ())"
    by (simp add: network_plugin_check_def fst_bnd loop fst_raise fst_ret Let_def)
  have found: "zip (map fst NET_PLUGIN_LIST) ?toggles = ?found"
    by (simp add: NET_PLUGIN_LIST_def)
  have toggles: "?toggles = map snd ?found"
    by (simp add: NET_PLUGIN_LIST_def)
  have cnt: "length (filter id (map snd ps)) = length (filter snd ps)" for ps :: "(string \<times> bool) list"
    by (induction ps) simp_all
  have "length (filter id ?toggles) = length (filter snd ?found)"
    unfolding toggles by (rule cnt)
  then show ?thesis
    unfolding res two found Let_def by (simp only:)
qed

theorem network_plugin_check_spec_witness:
  "fst (network_plugin_check plain_runtime
          [(''host1'', [(''openshift_use_flannel'', PStr ''yes'')])] ''host1'' fresh_ctx) =
     Inl (AnsibleModuleError
       (''Host Checked: host1 Only one of must be true. Found: '' @
        ''[('' @ [CHR 0x27] @ ''openshift_use_openshift_sdn'' @ [CHR 0x27] @ '', True), '' @
        ''('' @ [CHR 0x27] @ ''openshift_use_flannel'' @ [CHR 0x27] @ '', True), '' @
        ''('' @ [CHR 0x27] @ ''openshift_use_nuage'' @ [CHR 0x27] @ '', False), '' @
        ''('' @ [CHR 0x27] @ ''openshift_use_contiv'' @ [CHR 0x27] @ '', False), '' @
        ''('' @ [CHR 0x27] @ ''openshift_use_calico'' @ [CHR 0x27] @ '', False), '' @
        ''('' @ [CHR 0x27] @ ''openshift_use_kuryr'' @ [CHR 0x27] @ '', False)]'')) \<and>
   fst (network_plugin_check plain_runtime [(''host1'', [])] ''host1'' fresh_ctx) = Inr () \<and>
   fst (network_plugin_check plain_runtime
          [(''host1'', [(''openshift_use_openshift_sdn'', PBool False)])] ''host1'' fresh_ctx) =
     Inr ()"
proof -
  have y: "to_bool (PStr ''yes'')" "to_bool (PBool True)" "\<not> to_bool (PBool False)"
    by (simp_all add: to_bool_def py_in_def yes_list_def)
  show ?thesis
    using
      network_plugin_check_spec [OF map_of_host1, of plain_runtime
        "[(''openshift_use_flannel'', PStr ''yes'')]" fresh_ctx]
      network_plugin_check_spec [OF map_of_host1, of plain_runtime "[]" fresh_ctx]
      network_plugin_check_spec [OF map_of_host1, of plain_runtime
        "[(''openshift_use_openshift_sdn'', PBool False)]" fresh_ctx]
    by (simp add: toggle_def resolve_def plain_runtime_def y repr_pairs_def repr_pair_def)
qed

section \<open>Storage on NFS\<close>

lemma py_format_nfs:
  "py_format NFS_MSG [k] =
     ''nfs is an unsupported type for '' @ k @
     ''. openshift_enable_unsupported_configurations=True mustbe specified to continue with this configuration.''"
  by (simp add: NFS_MSG_def)

lemma nfs_loop_find:
  assumes "map_of hostvars host = Some vars"
  shows "fst (nfs_loop rt hostvars host ks s) =
    (case find (\<lambda>k. resolve rt vars k = PStr ''nfs'') ks of
       None \<Rightarrow> Inr ()
     | Some k \<Rightarrow> Inl (AnsibleModuleError (py_format NFS_MSG [k])))"
  using assms
proof (induction ks arbitrary: s)
  case Nil
  then show ?case by (simp add: fst_ret)
next
  case (Cons k ks)
  then show ?case
    by (simp add: fst_bnd fst_template_var fst_raise)
qed

text \<open>
  C8: \<open>check_unsupported_nfs_configs\<close> passes when
  \<^verbatim>\<open>openshift_enable_unsupported_configurations\<close> coerces to true, whatever the storage
  kinds are; otherwise it fails if and only if one of the seven storage-kind variables
  resolves to the string "nfs", and the message of the failure names such a variable.
\<close>

theorem check_unsupported_nfs_configs_spec:
  assumes "map_of hostvars host = Some vars"
  shows "(to_bool (resolve rt vars ''openshift_enable_unsupported_configurations'') \<longrightarrow>
            fst (check_unsupported_nfs_configs rt hostvars host s) = Inr ()) \<and>
         (\<not> to_bool (resolve rt vars ''openshift_enable_unsupported_configurations'') \<longrightarrow>
            ((\<exists>e. fst (check_unsupported_nfs_configs rt hostvars host s) = Inl e) \<longleftrightarrow>
             (\<exists>k \<in> set STORAGE_KIND_TUPLE. resolve rt vars k = PStr ''nfs'')) \<and>
            (\<forall>e. fst (check_unsupported_nfs_configs rt hostvars host s) = Inl e \<longrightarrow>
               (\<exists>k \<in> set STORAGE_KIND_TUPLE. resolve rt vars k = PStr ''nfs'' \<and>
                  e = AnsibleModuleError
                    (''nfs is an unsupported type for '' @ k @
                     ''. openshift_enable_unsupported_configurations=True mustbe specified to continue with this configuration.''))))"
proof -
  let ?flag = "resolve rt vars ''openshift_enable_unsupported_configurations''"
  let ?P = "\<lambda>k. resolve rt vars k = PStr ''nfs''"
  have res: "fst (check_unsupported_nfs_configs rt hostvars host s) =
      (if to_bool ?flag then Inr ()
       else case find ?P STORAGE_KIND_TUPLE of
              None \<Rightarrow> Inr ()
            | Some k \<Rightarrow> Inl (AnsibleModuleError (py_format NFS_MSG [k])))"
    using assms
    by (simp add: check_unsupported_nfs_configs_def fst_bnd fst_template_var fst_ret
        nfs_loop_find [OF assms])
  show ?thesis
  proof (cases "find ?P STORAGE_KIND_TUPLE")
    case None
    then have "\<not> (\<exists>k \<in> set STORAGE_KIND_TUPLE. ?P k)"
      by (simp add: find_None_iff)
    with None show ?thesis unfolding res by simp
  next
    case (Some k)
    then have "k \<in> set STORAGE_KIND_TUPLE" "?P k"
      by (auto simp: find_Some_iff)
    with Some show ?thesis unfolding res py_format_nfs by auto
  qed
qed

theorem check_unsupported_nfs_configs_spec_witness:
  "fst (check_unsupported_nfs_configs plain_runtime
          [(''host1'', [(''openshift_enable_unsupported_configurations'', PBool True),
                        (''openshift_metrics_storage_kind'', PStr ''nfs'')])]
          ''host1'' fresh_ctx) = Inr () \<and>
   fst (check_unsupported_nfs_configs plain_runtime
          [(''host1'', [(''openshift_metrics_storage_kind'', PStr ''nfs'')])]
          ''host1'' fresh_ctx) =
     Inl (AnsibleModuleError
       (''nfs is an unsupported type for openshift_metrics_storage_kind'' @
        ''. openshift_enable_unsupported_configurations=True mustbe specified to continue with this configuration.''))"
proof -
  let ?v1 = "[(''openshift_enable_unsupported_configurations'', PBool True),
              (''openshift_metrics_storage_kind'', PStr ''nfs'')]"
  let ?v2 = "[(''openshift_metrics_storage_kind'', PStr ''nfs'')]"
  have y: "to_bool (PBool True)" "\<not> to_bool PNone"
    by (simp_all add: to_bool_def py_in_def yes_list_def)
  have f1: "to_bool (resolve plain_runtime ?v1 ''openshift_enable_unsupported_configurations'')"
    by (simp add: resolve_def plain_runtime_def y)
  have f2: "\<not> to_bool (resolve plain_runtime ?v2 ''openshift_enable_unsupported_configurations'')"
    by (simp add: resolve_def plain_runtime_def y)
  have k: "(\<exists>k \<in> set STORAGE_KIND_TUPLE. resolve plain_runtime ?v2 k = PStr ''nfs'')"
    by (simp add: STORAGE_KIND_TUPLE_def resolve_def plain_runtime_def)
  have u: "k \<in> set STORAGE_KIND_TUPLE \<Longrightarrow> resolve plain_runtime ?v2 k = PStr ''nfs'' \<Longrightarrow>
      k = ''openshift_metrics_storage_kind''" for k
    by (simp add: resolve_def plain_runtime_def split: if_splits)
  from check_unsupported_nfs_configs_spec [OF map_of_host1, of plain_runtime ?v1 fresh_ctx] f1
  have a: "fst (check_unsupported_nfs_configs plain_runtime [(''host1'', ?v1)] ''host1'' fresh_ctx) =
      Inr ()"
    by blast
  from check_unsupported_nfs_configs_spec [OF map_of_host1, of plain_runtime ?v2 fresh_ctx] f2 k
  obtain e where e: "fst (check_unsupported_nfs_configs plain_runtime [(''host1'', ?v2)] ''host1''
      fresh_ctx) = Inl e"
    by blast
  with check_unsupported_nfs_configs_spec [OF map_of_host1, of plain_runtime ?v2 fresh_ctx] f2
  obtain k where "k \<in> set STORAGE_KIND_TUPLE" "resolve plain_runtime ?v2 k = PStr ''nfs''"
    "e = AnsibleModuleError
           (''nfs is an unsupported type for '' @ k @
            ''. openshift_enable_unsupported_configurations=True mustbe specified to continue with this configuration.'')"
    by blast
  with u [of k] have "e = AnsibleModuleError
       (''nfs is an unsupported type for openshift_metrics_storage_kind'' @
        ''. openshift_enable_unsupported_configurations=True mustbe specified to continue with this configuration.'')"
    by simp
  with a e show ?thesis by simp
qed

section \<open>The session secrets\<close>

lemma auth_secrets_loop_pass:
  "fst (auth_secrets_loop xs s) = Inr () \<longleftrightarrow> list_all valid_auth_secret xs"
proof (induction xs arbitrary: s)
  case Nil
  show ?case by (simp add: fst_ret)
next
  case (Cons x xs)
  show ?case
  proof (cases "py_len x")
    case (Inl e)
    then show ?thesis by (simp add: fst_bnd fst_lift valid_auth_secret_def)
  next
    case (Inr n)
    then show ?thesis using Cons [of "snd (lift (py_len x) s)"]
      by (simp add: fst_bnd fst_lift fst_raise valid_auth_secret_def)
  qed
qed

lemma encryption_secrets_loop_pass:
  "fst (encryption_secrets_loop ys s) = Inr () \<longleftrightarrow> list_all valid_encryption_secret ys"
proof (induction ys arbitrary: s)
  case Nil
  show ?case by (simp add: fst_ret)
next
  case (Cons y ys)
  show ?case
  proof (cases "py_len y")
    case (Inl e)
    then show ?thesis by (simp add: fst_bnd fst_lift valid_encryption_secret_def)
  next
    case (Inr n)
    then show ?thesis using Cons [of "snd (lift (py_len y) s)"]
      by (simp add: fst_bnd fst_lift fst_raise valid_encryption_secret_def)
  qed
qed

lemma auth_secrets_loop_strings:
  "fst (auth_secrets_loop (map PStr xs) s) =
     (if \<exists>x \<in> set xs. length x < 32 then Inl (AnsibleModuleError AUTH_SECRET_MSG) else Inr ())"
proof (induction xs arbitrary: s)
  case Nil
  show ?case by (simp add: fst_ret)
next
  case (Cons x xs)
  show ?case using Cons [of "snd (lift (py_len (PStr x)) s)"]
    by (simp add: fst_bnd fst_lift fst_raise)
qed

lemma encryption_secrets_loop_strings:
  "fst (encryption_secrets_loop (map PStr ys) s) =
     (if \<exists>y \<in> set ys. length y \<notin> {16, 24, 32}
      then Inl (AnsibleModuleError ENCRYPTION_SECRET_MSG) else Inr ())"
proof (induction ys arbitrary: s)
  case Nil
  show ?case by (simp add: fst_ret)
next
  case (Cons y ys)
  show ?case using Cons [of "snd (lift (py_len (PStr y)) s)"]
    by (simp add: fst_bnd fst_lift fst_raise)
qed

lemma is_list_iff: "is_list v \<longleftrightarrow> (\<exists>xs. v = PList xs)"
  by (cases v) simp_all

lemma case_sum_unit_pass:
  "((case r of Inl e \<Rightarrow> Inl e | Inr (u::unit) \<Rightarrow> k u) = (Inr y :: exn + 'a)) =
     (r = Inr () \<and> k () = Inr y)"
  by (cases r) simp_all

lemma check_session_auth_secrets_lists_pass:
  assumes "map_of hostvars host = Some vars"
    and "resolve rt vars ''openshift_master_session_auth_secrets'' = PList xs"
    and "resolve rt vars ''openshift_master_session_encryption_secrets'' = PList ys"
  shows "fst (check_session_auth_secrets rt hostvars host s) = Inr () \<longleftrightarrow>
     length xs = length ys \<and> list_all valid_auth_secret xs \<and> list_all valid_encryption_secret ys"
  using assms
  by (simp add: check_session_auth_secrets_def fst_bnd fst_template_var fst_ret fst_raise fst_lift
      case_sum_unit_pass auth_secrets_loop_pass encryption_secrets_loop_pass)

lemma check_session_auth_secrets_lists_unequal:
  assumes "map_of hostvars host = Some vars"
    and "resolve rt vars ''openshift_master_session_auth_secrets'' = PList xs"
    and "resolve rt vars ''openshift_master_session_encryption_secrets'' = PList ys"
    and "length xs \<noteq> length ys"
  shows "fst (check_session_auth_secrets rt hostvars host s) =
     Inl (AnsibleModuleError EQUAL_LENGTH_LISTS_MSG)"
  using assms
  by (simp add: check_session_auth_secrets_def fst_bnd fst_template_var fst_ret fst_raise fst_lift)

lemma check_session_auth_secrets_lists_auth:
  assumes "map_of hostvars host = Some vars"
    and "resolve rt vars ''openshift_master_session_auth_secrets'' = PList (map PStr xs)"
    and "resolve rt vars ''openshift_master_session_encryption_secrets'' = PList ys"
    and "length xs = length ys"
    and "\<exists>x \<in> set xs. length x < 32"
  shows "fst (check_session_auth_secrets rt hostvars host s) =
     Inl (AnsibleModuleError AUTH_SECRET_MSG)"
  using assms
  by (simp add: check_session_auth_secrets_def fst_bnd fst_template_var fst_ret fst_raise fst_lift
      auth_secrets_loop_strings)

lemma check_session_auth_secrets_lists_enc:
  assumes "map_of hostvars host = Some vars"
    and "resolve rt vars ''openshift_master_session_auth_secrets'' = PList xs"
    and "resolve rt vars ''openshift_master_session_encryption_secrets'' = PList (map PStr ys)"
    and "length xs = length ys"
    and "list_all valid_auth_secret xs"
    and "\<exists>y \<in> set ys. length y \<notin> {16, 24, 32}"
  shows "fst (check_session_auth_secrets rt hostvars host s) =
     Inl (AnsibleModuleError ENCRYPTION_SECRET_MSG)"
proof -
  have a: "fst (auth_secrets_loop xs s') = Inr ()" for s'
    using assms(5) unfolding auth_secrets_loop_pass .
  show ?thesis
    using assms(1-4,6)
    by (simp add: check_session_auth_secrets_def fst_bnd fst_template_var fst_ret fst_raise
        fst_lift a encryption_secrets_loop_strings)
qed

lemma check_session_auth_secrets_not_lists:
  assumes "map_of hostvars host = Some vars"
    and "\<not> (resolve rt vars ''openshift_master_session_auth_secrets'' = PNone \<and>
             resolve rt vars ''openshift_master_session_encryption_secrets'' = PNone)"
    and "\<not> (is_list (resolve rt vars ''openshift_master_session_auth_secrets'') \<and>
             is_list (resolve rt vars ''openshift_master_session_encryption_secrets''))"
  shows "fst (check_session_auth_secrets rt hostvars host s) =
           Inl (AnsibleModuleError EQUAL_LENGTH_LISTS_MSG)"
  using assms
  by (simp add: check_session_auth_secrets_def fst_bnd fst_template_var fst_ret fst_raise fst_lift)

lemma check_session_auth_secrets_absent:
  assumes "map_of hostvars host = Some vars"
    and "resolve rt vars ''openshift_master_session_auth_secrets'' = PNone"
    and "resolve rt vars ''openshift_master_session_encryption_secrets'' = PNone"
  shows "fst (check_session_auth_secrets rt hostvars host s) = Inr ()"
  using assms
  by (simp add: check_session_auth_secrets_def fst_bnd fst_template_var fst_ret)

text \<open>
  C7: with \<open>sas\<close> and \<open>ses\<close> the resolved values of
  \<^verbatim>\<open>openshift_master_session_auth_secrets\<close> and
  \<^verbatim>\<open>openshift_master_session_encryption_secrets\<close>, \<open>check_session_auth_secrets\<close> passes
  when both are absent; otherwise it passes if and only if both are lists of equal length,
  every auth secret has a length of at least 32 and every encryption secret has length 16,
  24 or 32. When the two are not lists of equal length the failure says so, whatever the
  secrets are; for lists of equal length, a short string among auth secrets that are
  strings gives the failure that names the auth secrets, and, the auth secrets being
  valid, a string of a wrong length among encryption secrets that are strings gives the
  failure that names the encryption secrets.
\<close>

theorem check_session_auth_secrets_spec:
  assumes "map_of hostvars host = Some vars"
    and "resolve rt vars ''openshift_master_session_auth_secrets'' = sas"
    and "resolve rt vars ''openshift_master_session_encryption_secrets'' = ses"
  shows "(sas = PNone \<and> ses = PNone \<longrightarrow>
            fst (check_session_auth_secrets rt hostvars host s) = Inr ()) \<and>
         (\<not> (sas = PNone \<and> ses = PNone) \<longrightarrow>
            (fst (check_session_auth_secrets rt hostvars host s) = Inr () \<longleftrightarrow>
               (\<exists>xs ys. sas = PList xs \<and> ses = PList ys \<and> length xs = length ys \<and>
                  list_all valid_auth_secret xs \<and> list_all valid_encryption_secret ys))) \<and>
         (\<not> (sas = PNone \<and> ses = PNone) \<and>
          \<not> (\<exists>xs ys. sas = PList xs \<and> ses = PList ys \<and> length xs = length ys) \<longrightarrow>
            fst (check_session_auth_secrets rt hostvars host s) =
              Inl (AnsibleModuleError
                (''Expects openshift_master_session_auth_secrets and '' @
                 ''openshift_master_session_encryption_secrets are equal length lists''))) \<and>
         (\<forall>xs ys. sas = PList (map PStr xs) \<and> ses = PList ys \<and> length xs = length ys \<and>
            (\<exists>x \<in> set xs. length x < 32) \<longrightarrow>
            fst (check_session_auth_secrets rt hostvars host s) =
              Inl (AnsibleModuleError
                (''Invalid secret in openshift_master_session_auth_secrets. '' @
                 ''Secrets must be at least 32 characters in length.''))) \<and>
         (\<forall>xs ys. sas = PList xs \<and> ses = PList (map PStr ys) \<and> length xs = length ys \<and>
            list_all valid_auth_secret xs \<and> (\<exists>y \<in> set ys. length y \<notin> {16, 24, 32}) \<longrightarrow>
            fst (check_session_auth_secrets rt hostvars host s) =
              Inl (AnsibleModuleError
                (''Invalid secret in openshift_master_session_encryption_secrets. '' @
                 ''Secrets must be 16, 24, or 32 characters in length.'')))"
proof -
  let ?out = "fst (check_session_auth_secrets rt hostvars host s)"
  note h = assms(1)
  have absent: "sas = PNone \<and> ses = PNone \<longrightarrow> ?out = Inr ()"
    using check_session_auth_secrets_absent [OF h, of rt s] assms(2,3) by simp
  have not_lists: "?out = Inl (AnsibleModuleError EQUAL_LENGTH_LISTS_MSG)"
    if "\<not> (sas = PNone \<and> ses = PNone)" "\<not> (is_list sas \<and> is_list ses)"
    using check_session_auth_secrets_not_lists [OF h, of rt s] assms(2,3) that by simp
  have lists_pass: "?out = Inr () \<longleftrightarrow>
      length xs = length ys \<and> list_all valid_auth_secret xs \<and> list_all valid_encryption_secret ys"
    if "sas = PList xs" "ses = PList ys" for xs ys
    using check_session_auth_secrets_lists_pass [OF h, of rt xs ys s] assms(2,3) that by simp
  have lists_unequal: "?out = Inl (AnsibleModuleError EQUAL_LENGTH_LISTS_MSG)"
    if "sas = PList xs" "ses = PList ys" "length xs \<noteq> length ys" for xs ys
    using check_session_auth_secrets_lists_unequal [OF h, of rt xs ys s] assms(2,3) that by simp
  have pass: "\<not> (sas = PNone \<and> ses = PNone) \<longrightarrow>
      (?out = Inr () \<longleftrightarrow>
         (\<exists>xs ys. sas = PList xs \<and> ses = PList ys \<and> length xs = length ys \<and>
            list_all valid_auth_secret xs \<and> list_all valid_encryption_secret ys))"
  proof (cases "is_list sas \<and> is_list ses")
    case False
    then have "\<not> (\<exists>xs ys. sas = PList xs \<and> ses = PList ys)"
      by (auto simp: is_list_iff)
    with False not_lists show ?thesis by auto
  next
    case True
    then obtain xs ys where l: "sas = PList xs" "ses = PList ys"
      by (auto simp: is_list_iff)
    from lists_pass [OF l] l show ?thesis by simp
  qed
  have unequal: "\<not> (sas = PNone \<and> ses = PNone) \<and>
      \<not> (\<exists>xs ys. sas = PList xs \<and> ses = PList ys \<and> length xs = length ys) \<longrightarrow>
      ?out = Inl (AnsibleModuleError EQUAL_LENGTH_LISTS_MSG)"
  proof (cases "is_list sas \<and> is_list ses")
    case False
    with not_lists show ?thesis by blast
  next
    case True
    then obtain xs ys where l: "sas = PList xs" "ses = PList ys"
      by (auto simp: is_list_iff)
    from lists_unequal [OF l] l show ?thesis by auto
  qed
  have auth: "\<forall>xs ys. sas = PList (map PStr xs) \<and> ses = PList ys \<and> length xs = length ys \<and>
      (\<exists>x \<in> set xs. length x < 32) \<longrightarrow> ?out = Inl (AnsibleModuleError AUTH_SECRET_MSG)"
    using check_session_auth_secrets_lists_auth [OF h, of rt _ _ s] assms(2,3) by simp
  have enc: "\<forall>xs ys. sas = PList xs \<and> ses = PList (map PStr ys) \<and> length xs = length ys \<and>
      list_all valid_auth_secret xs \<and> (\<exists>y \<in> set ys. length y \<notin> {16, 24, 32}) \<longrightarrow>
      ?out = Inl (AnsibleModuleError ENCRYPTION_SECRET_MSG)"
    using check_session_auth_secrets_lists_enc [OF h, of rt _ _ s] assms(2,3) by simp
  have m1: "EQUAL_LENGTH_LISTS_MSG =
      ''Expects openshift_master_session_auth_secrets and '' @
      ''openshift_master_session_encryption_secrets are equal length lists''"
    by (simp add: EQUAL_LENGTH_LISTS_MSG_def)
  have m2: "AUTH_SECRET_MSG =
      ''Invalid secret in openshift_master_session_auth_secrets. '' @
      ''Secrets must be at least 32 characters in length.''"
    by (simp add: AUTH_SECRET_MSG_def)
  have m3: "ENCRYPTION_SECRET_MSG =
      ''Invalid secret in openshift_master_session_encryption_secrets. '' @
      ''Secrets must be 16, 24, or 32 characters in length.''"
    by (simp add: ENCRYPTION_SECRET_MSG_def)
  show ?thesis
    apply (intro conjI)
        apply (rule absent)
       apply (rule pass)
      apply (rule unequal [unfolded m1])
     apply (rule auth [unfolded m2])
    apply (rule enc [unfolded m3])
    done
qed


theorem check_session_auth_secrets_spec_witness:
  "fst (check_session_auth_secrets plain_runtime
          [(''host1'',
            [(''openshift_master_session_auth_secrets'',
                PList [PStr (replicate 32 CHR ''a''), PStr (replicate 32 CHR ''b'')]),
             (''openshift_master_session_encryption_secrets'',
                PList [PStr (replicate 16 CHR ''c''), PStr (replicate 24 CHR ''d'')])])]
          ''host1'' fresh_ctx) = Inr () \<and>
   fst (check_session_auth_secrets plain_runtime
          [(''host1'',
            [(''openshift_master_session_auth_secrets'',
                PList [PStr (replicate 32 CHR ''a''), PStr (replicate 32 CHR ''b'')]),
             (''openshift_master_session_encryption_secrets'',
                PList [PStr (replicate 16 CHR ''c'')])])]
          ''host1'' fresh_ctx) =
     Inl (AnsibleModuleError
       (''Expects openshift_master_session_auth_secrets and '' @
        ''openshift_master_session_encryption_secrets are equal length lists'')) \<and>
   fst (check_session_auth_secrets plain_runtime [(''host1'', [])] ''host1'' fresh_ctx) = Inr ()"
proof -
  let ?a = "PList [PStr (replicate 32 CHR ''a''), PStr (replicate 32 CHR ''b'')]"
  let ?e2 = "PList [PStr (replicate 16 CHR ''c''), PStr (replicate 24 CHR ''d'')]"
  let ?e1 = "PList [PStr (replicate 16 CHR ''c'')]"
  have r: "resolve plain_runtime
      [(''openshift_master_session_auth_secrets'', ?a),
       (''openshift_master_session_encryption_secrets'', e)]
      ''openshift_master_session_auth_secrets'' = ?a"
    "e \<noteq> PNone \<Longrightarrow> resolve plain_runtime
      [(''openshift_master_session_auth_secrets'', ?a),
       (''openshift_master_session_encryption_secrets'', e)]
      ''openshift_master_session_encryption_secrets'' = e" for e
    by (simp_all add: resolve_def plain_runtime_def)
  have n: "resolve plain_runtime [] ''openshift_master_session_auth_secrets'' = PNone"
    "resolve plain_runtime [] ''openshift_master_session_encryption_secrets'' = PNone"
    by (simp_all add: resolve_def)
  have ok: "\<exists>xs ys. ?a = PList xs \<and> ?e2 = PList ys \<and> length xs = length ys \<and>
      list_all valid_auth_secret xs \<and> list_all valid_encryption_secret ys"
    by (simp add: valid_auth_secret_def valid_encryption_secret_def)
  have ne: "\<not> (\<exists>xs ys. ?a = PList xs \<and> ?e1 = PList ys \<and> length xs = length ys)"
    by simp
  have p1: "fst (check_session_auth_secrets plain_runtime
          [(''host1'',
            [(''openshift_master_session_auth_secrets'', ?a),
             (''openshift_master_session_encryption_secrets'', ?e2)])]
          ''host1'' fresh_ctx) = Inr ()"
    using check_session_auth_secrets_spec [OF map_of_host1 r(1) r(2), of ?e2 fresh_ctx] ok
    by simp
  have p2: "fst (check_session_auth_secrets plain_runtime
          [(''host1'',
            [(''openshift_master_session_auth_secrets'', ?a),
             (''openshift_master_session_encryption_secrets'', ?e1)])]
          ''host1'' fresh_ctx) =
     Inl (AnsibleModuleError
       (''Expects openshift_master_session_auth_secrets and '' @
        ''openshift_master_session_encryption_secrets are equal length lists''))"
    using check_session_auth_secrets_spec [OF map_of_host1 r(1) r(2), of ?e1 fresh_ctx] ne
    by simp
  have p3: "fst (check_session_auth_secrets plain_runtime [(''host1'', [])] ''host1'' fresh_ctx) =
      Inr ()"
    using check_session_auth_secrets_spec [OF map_of_host1 n, of fresh_ctx] by simp
  from p1 p2 p3 show ?thesis by (intro conjI)
qed

section \<open>The htpasswd identity providers\<close>

lemma py_format_htpasswd:
  "py_format HTPASSWD_MSG [k, k] =
     ''openshift_master_identity_providers contains a '' @
     ''provider of kind==HTPasswdPasswordIdentityProvider '' @
     ''and '' @ k @ '' is set.  Please migrate your htpasswd '' @
     ''files to /etc/origin/master/htpasswd and update your '' @
     ''existing master configs, and remove the '' @ k @ '' key'' @
     ''before proceeding.''"
  by (simp add: HTPASSWD_MSG_def)

lemma old_key_loop_find:
  "fst (old_key_loop (PDict d) ks s) =
     (case find (\<lambda>k. map_of d k \<noteq> None) ks of
        None \<Rightarrow> Inr ()
      | Some k \<Rightarrow> Inl (AnsibleModuleError (py_format HTPASSWD_MSG [k, k])))"
proof (induction ks arbitrary: s)
  case Nil
  show ?case by (simp add: fst_ret)
next
  case (Cons k ks)
  show ?case
    by (simp add: fst_bnd fst_lift fst_raise Cons del: py_format.simps)
qed

lemma idp_loop_outcome:
  assumes "list_all provider_record xs"
  shows "case fst (idp_loop xs s) of
           Inr u \<Rightarrow> \<not> (\<exists>idp \<in> set xs. \<exists>k \<in> set old_keys. offending idp k)
         | Inl e \<Rightarrow> \<exists>idp \<in> set xs. \<exists>k \<in> set old_keys. offending idp k \<and>
                      e = AnsibleModuleError (py_format HTPASSWD_MSG [k, k])"
  using assms
proof (induction xs arbitrary: s)
  case Nil
  show ?case by (simp add: fst_ret)
next
  case (Cons idp xs)
  from Cons.prems obtain d kind where d: "idp = PDict d" "map_of d ''kind'' = Some kind"
    by (auto simp: provider_record_def split: pyval.splits)
  from Cons.prems have rest: "list_all provider_record xs" by simp
  note IH = Cons.IH [OF rest]
  show ?case
  proof (cases "py_eq kind (LStr ''HTPasswdPasswordIdentityProvider'')")
    case False
    then have no: "\<not> offending idp k" for k
      by (simp add: offending_def d)
    have "fst (idp_loop (idp # xs) s) = fst (idp_loop xs (snd (lift (getitem idp ''kind'') s)))"
      using False by (simp add: d fst_bnd fst_lift)
    with IH [of "snd (lift (getitem idp ''kind'') s)"] no show ?thesis
      by (simp split: sum.splits)
  next
    case True
    then have off: "offending idp k \<longleftrightarrow> map_of d k \<noteq> None" for k
      by (simp add: offending_def d)
    show ?thesis
    proof (cases "find (\<lambda>k. map_of d k \<noteq> None) old_keys")
      case None
      then have no: "\<not> (\<exists>k \<in> set old_keys. offending idp k)"
        by (simp add: find_None_iff off)
      obtain s' where "fst (idp_loop (idp # xs) s) = fst (idp_loop xs s')"
        using True None by (simp add: d fst_bnd fst_lift old_key_loop_find)
      with IH [of s'] no show ?thesis
        by (simp split: sum.splits)
    next
      case (Some k)
      then have k: "k \<in> set old_keys" "offending idp k"
        by (auto simp: find_Some_iff off)
      have "fst (idp_loop (idp # xs) s) = Inl (AnsibleModuleError (py_format HTPASSWD_MSG [k, k]))"
        using True Some by (simp add: d fst_bnd fst_lift old_key_loop_find del: py_format.simps)
      with k show ?thesis by auto
    qed
  qed
qed

lemma old_keys_set: "set old_keys = {''file'', ''fileName'', ''file_name'', ''filename''}"
  by (simp add: old_keys_def)

lemma check_htpasswd_provider_skip:
  assumes "map_of hostvars host = Some vars"
    and "\<not> truthy (resolve rt vars ''openshift_master_identity_providers'') \<or>
         to_bool (resolve rt vars ''openshift_master_manage_htpasswd'')"
  shows "fst (check_htpasswd_provider rt hostvars host s) = Inr ()"
  using assms
  by (auto simp add: check_htpasswd_provider_def fst_bnd fst_template_var fst_ret)

lemma check_htpasswd_provider_list:
  assumes "map_of hostvars host = Some vars"
    and "resolve rt vars ''openshift_master_identity_providers'' = PList xs"
    and "xs \<noteq> []"
    and "\<not> to_bool (resolve rt vars ''openshift_master_manage_htpasswd'')"
  shows "\<exists>s'. fst (check_htpasswd_provider rt hostvars host s) = fst (idp_loop xs s')"
  using assms
  by (simp add: check_htpasswd_provider_def fst_bnd fst_template_var fst_ret fst_lift) blast

lemma check_htpasswd_provider_outcome:
  assumes "map_of hostvars host = Some vars"
    and "resolve rt vars ''openshift_master_identity_providers'' = idps"
    and "resolve rt vars ''openshift_master_manage_htpasswd'' = manage_pass"
    and "\<not> truthy idps \<or> (\<exists>xs. idps = PList xs \<and> list_all provider_record xs)"
  shows "((\<exists>e. fst (check_htpasswd_provider rt hostvars host s) = Inl e) \<longleftrightarrow>
            truthy idps \<and> \<not> to_bool manage_pass \<and>
            (\<exists>xs. idps = PList xs \<and>
               (\<exists>idp \<in> set xs. \<exists>k \<in> set old_keys. offending idp k))) \<and>
         (\<forall>e. fst (check_htpasswd_provider rt hostvars host s) = Inl e \<longrightarrow>
            (\<exists>xs. idps = PList xs \<and>
               (\<exists>idp \<in> set xs. \<exists>k \<in> set old_keys.
                  offending idp k \<and> e = AnsibleModuleError (py_format HTPASSWD_MSG [k, k]))))"
proof (cases "\<not> truthy idps \<or> to_bool manage_pass")
  case True
  have "fst (check_htpasswd_provider rt hostvars host s) = Inr ()"
    using check_htpasswd_provider_skip [OF assms(1), of rt s] assms(2,3) True by blast
  with True show ?thesis by auto
next
  case False
  then have t: "truthy idps" and nm: "\<not> to_bool manage_pass"
    by blast+
  from t assms(4) obtain xs where xs: "idps = PList xs" "list_all provider_record xs"
    by blast
  from t xs(1) have ne: "xs \<noteq> []" by simp
  from nm have m: "\<not> to_bool (resolve rt vars ''openshift_master_manage_htpasswd'')"
    using assms(3) by simp
  have r: "resolve rt vars ''openshift_master_identity_providers'' = PList xs"
    using assms(2) xs(1) by simp
  from check_htpasswd_provider_list [OF assms(1) r ne m, of s]
  obtain s' where out: "fst (check_htpasswd_provider rt hostvars host s) = fst (idp_loop xs s')"
    by blast
  note loop = idp_loop_outcome [OF xs(2), of s']
  show ?thesis
  proof (cases "fst (idp_loop xs s')")
    case (Inl e)
    with loop have "\<exists>idp \<in> set xs. \<exists>k \<in> set old_keys. offending idp k \<and>
        e = AnsibleModuleError (py_format HTPASSWD_MSG [k, k])"
      by simp
    with Inl t nm xs(1) show ?thesis unfolding out
      by (simp del: py_format.simps) blast
  next
    case (Inr u)
    with loop have "\<not> (\<exists>idp \<in> set xs. \<exists>k \<in> set old_keys. offending idp k)"
      by simp
    with Inr xs(1) show ?thesis unfolding out
      by (simp del: py_format.simps)
  qed
qed

text \<open>
  C5: on a host whose \<^verbatim>\<open>openshift_master_identity_providers\<close> is absent, empty or a
  list of provider records (dictionaries with a \<^verbatim>\<open>kind\<close>), \<open>check_htpasswd_provider\<close>
  fails if and only if the list is non-empty, \<^verbatim>\<open>openshift_master_manage_htpasswd\<close>
  coerces to false, and some record whose kind equals "HTPasswdPasswordIdentityProvider"
  contains one of the keys file, fileName, file_name, filename; the message of the failure
  names such a key of such a record.
\<close>

theorem check_htpasswd_provider_spec:
  assumes "map_of hostvars host = Some vars"
    and "resolve rt vars ''openshift_master_identity_providers'' = idps"
    and "resolve rt vars ''openshift_master_manage_htpasswd'' = manage_pass"
    and "\<not> truthy idps \<or> (\<exists>xs. idps = PList xs \<and> list_all provider_record xs)"
  shows "((\<exists>e. fst (check_htpasswd_provider rt hostvars host s) = Inl e) \<longleftrightarrow>
            truthy idps \<and> \<not> to_bool manage_pass \<and>
            (\<exists>xs. idps = PList xs \<and>
               (\<exists>idp \<in> set xs. \<exists>k \<in> {''file'', ''fileName'', ''file_name'', ''filename''}.
                  offending idp k))) \<and>
         (\<forall>e. fst (check_htpasswd_provider rt hostvars host s) = Inl e \<longrightarrow>
            (\<exists>xs. idps = PList xs \<and>
               (\<exists>idp \<in> set xs. \<exists>k \<in> {''file'', ''fileName'', ''file_name'', ''filename''}.
                  offending idp k \<and>
                  e = AnsibleModuleError
                    (''openshift_master_identity_providers contains a '' @
                     ''provider of kind==HTPasswdPasswordIdentityProvider '' @
                     ''and '' @ k @ '' is set.  Please migrate your htpasswd '' @
                     ''files to /etc/origin/master/htpasswd and update your '' @
                     ''existing master configs, and remove the '' @ k @ '' key'' @
                     ''before proceeding.''))))"
  using check_htpasswd_provider_outcome [OF assms, of s]
  unfolding old_keys_set py_format_htpasswd .


theorem check_htpasswd_provider_spec_witness:
  "fst (check_htpasswd_provider plain_runtime
          [(''host1'',
            [(''openshift_master_identity_providers'',
                PList [PDict [(''name'', PStr ''htpasswd_auth''),
                              (''kind'', PStr ''HTPasswdPasswordIdentityProvider''),
                              (''filename'', PStr ''/etc/origin/htpasswd'')]])])]
          ''host1'' fresh_ctx) =
     Inl (AnsibleModuleError
       (''openshift_master_identity_providers contains a '' @
        ''provider of kind==HTPasswdPasswordIdentityProvider '' @
        ''and '' @ ''filename'' @ '' is set.  Please migrate your htpasswd '' @
        ''files to /etc/origin/master/htpasswd and update your '' @
        ''existing master configs, and remove the '' @ ''filename'' @ '' key'' @
        ''before proceeding.'')) \<and>
   fst (check_htpasswd_provider plain_runtime
          [(''host1'',
            [(''openshift_master_identity_providers'',
                PList [PDict [(''name'', PStr ''htpasswd_auth''),
                              (''kind'', PStr ''HTPasswdPasswordIdentityProvider'')]])])]
          ''host1'' fresh_ctx) = Inr ()"
proof -
  let ?bad = "PDict [(''name'', PStr ''htpasswd_auth''),
                     (''kind'', PStr ''HTPasswdPasswordIdentityProvider''),
                     (''filename'', PStr ''/etc/origin/htpasswd'')]"
  let ?good = "PDict [(''name'', PStr ''htpasswd_auth''),
                      (''kind'', PStr ''HTPasswdPasswordIdentityProvider'')]"
  let ?legacy = "{''file'', ''fileName'', ''file_name'', ''filename''}"
  have r: "resolve plain_runtime [(''openshift_master_identity_providers'', PList ps)]
             ''openshift_master_identity_providers'' = PList ps"
    "resolve plain_runtime [(''openshift_master_identity_providers'', PList ps)]
             ''openshift_master_manage_htpasswd'' = PNone" for ps
    by (simp_all add: resolve_def plain_runtime_def)
  have nb: "\<not> to_bool PNone"
    by (simp add: to_bool_def py_in_def yes_list_def)
  have wb: "\<not> truthy (PList [?bad]) \<or> (\<exists>xs. PList [?bad] = PList xs \<and> list_all provider_record xs)"
    by (simp add: provider_record_def)
  have wg: "\<not> truthy (PList [?good]) \<or> (\<exists>xs. PList [?good] = PList xs \<and> list_all provider_record xs)"
    by (simp add: provider_record_def)
  have ob: "k \<in> ?legacy \<Longrightarrow> offending ?bad k \<longleftrightarrow> k = ''filename''" for k
    by (auto simp add: offending_def)
  have og: "k \<in> ?legacy \<Longrightarrow> \<not> offending ?good k" for k
    by (auto simp add: offending_def)
  note bad = check_htpasswd_provider_spec [OF map_of_host1 r(1) r(2) wb, of fresh_ctx]
  note good = check_htpasswd_provider_spec [OF map_of_host1 r(1) r(2) wg, of fresh_ctx]
  let ?outb = "fst (check_htpasswd_provider plain_runtime
      [(''host1'', [(''openshift_master_identity_providers'', PList [?bad])])] ''host1'' fresh_ctx)"
  let ?outg = "fst (check_htpasswd_provider plain_runtime
      [(''host1'', [(''openshift_master_identity_providers'', PList [?good])])] ''host1'' fresh_ctx)"
  have "\<exists>xs. PList [?bad] = PList xs \<and> (\<exists>idp \<in> set xs. \<exists>k \<in> ?legacy. offending idp k)"
    using ob [of "''filename''"] by simp
  with bad [THEN conjunct1] nb have "\<exists>e. ?outb = Inl e"
    by simp
  then obtain e where e: "?outb = Inl e" ..
  with bad [THEN conjunct2] obtain xs idp k where
    k: "PList [?bad] = PList xs" "idp \<in> set xs" "k \<in> ?legacy" "offending idp k"
      "e = AnsibleModuleError
        (''openshift_master_identity_providers contains a '' @
         ''provider of kind==HTPasswdPasswordIdentityProvider '' @
         ''and '' @ k @ '' is set.  Please migrate your htpasswd '' @
         ''files to /etc/origin/master/htpasswd and update your '' @
         ''existing master configs, and remove the '' @ k @ '' key'' @
         ''before proceeding.'')"
    by blast
  from k(1,2) have "idp = ?bad" by auto
  with k(3,4) ob [of k] have "k = ''filename''" by blast
  with k(5) e have p1: "?outb =
     Inl (AnsibleModuleError
       (''openshift_master_identity_providers contains a '' @
        ''provider of kind==HTPasswdPasswordIdentityProvider '' @
        ''and '' @ ''filename'' @ '' is set.  Please migrate your htpasswd '' @
        ''files to /etc/origin/master/htpasswd and update your '' @
        ''existing master configs, and remove the '' @ ''filename'' @ '' key'' @
        ''before proceeding.''))"
    by (simp only:)
  have "\<not> (\<exists>xs. PList [?good] = PList xs \<and> (\<exists>idp \<in> set xs. \<exists>k \<in> ?legacy. offending idp k))"
    using og by simp
  with good [THEN conjunct1] have "\<not> (\<exists>e. ?outg = Inl e)"
    by blast
  then have p2: "?outg = Inr ()"
    by (cases ?outg) simp_all
  from p1 p2 show ?thesis by (intro conjI)
qed

section \<open>The outcome of a check does not depend on the recorded host and variable\<close>

lemma stateless_ret: "stateless (ret x)"
  by (simp add: stateless_def ret_def)

lemma stateless_raise: "stateless (raise e)"
  by (simp add: stateless_def raise_def)

lemma stateless_lift: "stateless (lift r)"
  by (simp add: stateless_def lift_def)

lemma stateless_template_var: "stateless (template_var rt hostvars host varname)"
  by (simp add: stateless_def template_var_def Let_def split: option.splits)

lemma stateless_bnd:
  assumes "stateless m" and "\<And>x. stateless (f x)"
  shows "stateless (bnd m f)"
  unfolding stateless_def
proof (intro allI)
  fix s s'
  from assms(1) have m: "fst (m s) = fst (m s')"
    by (simp add: stateless_def)
  show "fst (bnd m f s) = fst (bnd m f s')"
  proof (cases "fst (m s)")
    case (Inl e)
    moreover from Inl m have "fst (m s') = Inl e" by simp
    ultimately show ?thesis by (simp add: fst_bnd)
  next
    case (Inr x)
    moreover from Inr m have "fst (m s') = Inr x" by simp
    moreover from assms(2) [of x] have "fst (f x (snd (m s))) = fst (f x (snd (m s')))"
      by (simp add: stateless_def)
    ultimately show ?thesis by (simp add: fst_bnd)
  qed
qed

lemma stateless_if:
  "(c \<Longrightarrow> stateless m) \<Longrightarrow> (\<not> c \<Longrightarrow> stateless n) \<Longrightarrow> stateless (if c then m else n)"
  by simp

lemmas stateless_intros =
  stateless_bnd stateless_if stateless_ret stateless_raise stateless_lift stateless_template_var

lemma stateless_check_openshift_deployment_type:
  "stateless (check_openshift_deployment_type rt hostvars host)"
  unfolding check_openshift_deployment_type_def Let_def
  by (intro stateless_intros)

lemma stateless_check_python_version:
  "stateless (check_python_version rt hostvars host distro)"
  unfolding check_python_version_def Let_def
  by (intro stateless_intros)

lemma stateless_check_image_tag_format:
  "stateless (check_image_tag_format rt hostvars host odt)"
  unfolding check_image_tag_format_def Let_def
  by (intro stateless_intros)

lemma stateless_network_plugin_loop:
  "stateless (network_plugin_loop rt hostvars host ps res)"
proof (induction ps arbitrary: res)
  case Nil
  show ?case by (simp add: stateless_ret)
next
  case (Cons p ps)
  obtain plugin default_val where p: "p = (plugin, default_val)" by (cases p)
  show ?case unfolding p network_plugin_loop.simps Let_def
    by (intro stateless_intros Cons)
qed

lemma stateless_network_plugin_check:
  "stateless (network_plugin_check rt hostvars host)"
  unfolding network_plugin_check_def Let_def
  by (intro stateless_intros stateless_network_plugin_loop)

lemma stateless_hostname_loop:
  "stateless (hostname_loop rt hostvars host names)"
proof (induction names)
  case Nil
  show ?case by (simp add: stateless_ret)
next
  case (Cons n ns)
  show ?case unfolding hostname_loop.simps
    by (intro stateless_intros Cons)
qed

lemma stateless_check_hostname_vars:
  "stateless (check_hostname_vars rt hostvars host)"
  unfolding check_hostname_vars_def by (rule stateless_hostname_loop)

lemma stateless_auth_secrets_loop: "stateless (auth_secrets_loop xs)"
proof (induction xs)
  case Nil
  show ?case by (simp add: stateless_ret)
next
  case (Cons x xs)
  show ?case unfolding auth_secrets_loop.simps
    by (intro stateless_intros Cons)
qed

lemma stateless_encryption_secrets_loop: "stateless (encryption_secrets_loop xs)"
proof (induction xs)
  case Nil
  show ?case by (simp add: stateless_ret)
next
  case (Cons x xs)
  show ?case unfolding encryption_secrets_loop.simps
    by (intro stateless_intros Cons)
qed

lemma stateless_check_session_auth_secrets:
  "stateless (check_session_auth_secrets rt hostvars host)"
  unfolding check_session_auth_secrets_def
  by (intro stateless_intros stateless_auth_secrets_loop stateless_encryption_secrets_loop)

lemma stateless_nfs_loop: "stateless (nfs_loop rt hostvars host ks)"
proof (induction ks)
  case Nil
  show ?case by (simp add: stateless_ret)
next
  case (Cons k ks)
  show ?case unfolding nfs_loop.simps
    by (intro stateless_intros Cons)
qed

lemma stateless_check_unsupported_nfs_configs:
  "stateless (check_unsupported_nfs_configs rt hostvars host)"
  unfolding check_unsupported_nfs_configs_def
  by (intro stateless_intros stateless_nfs_loop)

lemma stateless_old_key_loop: "stateless (old_key_loop idp ks)"
proof (induction ks)
  case Nil
  show ?case by (simp add: stateless_ret)
next
  case (Cons k ks)
  show ?case unfolding old_key_loop.simps
    by (intro stateless_intros Cons)
qed

lemma stateless_idp_loop: "stateless (idp_loop xs)"
proof (induction xs)
  case Nil
  show ?case by (simp add: stateless_ret)
next
  case (Cons x xs)
  show ?case unfolding idp_loop.simps
    by (intro stateless_intros stateless_old_key_loop Cons)
qed

lemma stateless_check_htpasswd_provider:
  "stateless (check_htpasswd_provider rt hostvars host)"
  unfolding check_htpasswd_provider_def
  by (intro stateless_intros stateless_idp_loop)

lemma stateless_run_checks: "stateless (run_checks rt hostvars host)"
  unfolding run_checks_def
  by (intro stateless_intros stateless_check_openshift_deployment_type
      stateless_check_python_version stateless_check_image_tag_format
      stateless_network_plugin_check stateless_check_hostname_vars
      stateless_check_session_auth_secrets stateless_check_unsupported_nfs_configs
      stateless_check_htpasswd_provider)

section \<open>The run over the hosts\<close>

lemma run_checks_missing_host:
  "map_of hostvars host = None \<Longrightarrow>
     fst (run_checks rt hostvars host s) = Inl (KeyError (PStr host))"
  by (simp add: run_checks_def fst_bnd fst_template_var_missing)

lemma hosts_loop_pass:
  assumes "\<forall>h \<in> set hosts. \<exists>c. fst (run_checks rt hostvars h c) = Inr ()"
  shows "fst (hosts_loop rt hostvars hosts s) = Inr ()"
  using assms
proof (induction hosts arbitrary: s)
  case Nil
  show ?case by (simp add: fst_ret)
next
  case (Cons h hs)
  from Cons.prems obtain c where "fst (run_checks rt hostvars h c) = Inr ()"
    by auto
  with stateless_run_checks [of rt hostvars h] have "fst (run_checks rt hostvars h s) = Inr ()"
    unfolding stateless_def by metis
  then obtain s' where r: "run_checks rt hostvars h s = (Inr (), s')"
    by (cases "run_checks rt hostvars h s") simp
  from Cons.prems have "\<forall>h \<in> set hs. \<exists>c. fst (run_checks rt hostvars h c) = Inr ()"
    by simp
  from Cons.IH [OF this, of s'] r show ?case
    by simp
qed

text \<open>
  C1: when \<^verbatim>\<open>check_hosts\<close> is a non-empty list and every listed host passes all the
  rules on the host variables of the task, \<open>run\<close> returns the result of the base class
  with \<^verbatim>\<open>changed\<close> set to false, \<^verbatim>\<open>failed\<close> set to false and the message
  "Sanity Checks passed".
\<close>

theorem run_passes:
  assumes "check_hosts = Some hosts" and "hosts \<noteq> []"
    and "task_vars = Some tv" and "tv_hostvars tv = Some hostvars"
    and "\<forall>h \<in> set hosts. \<exists>c. fst (run_checks rt hostvars h c) = Inr ()"
  shows "\<exists>result. fst (run rt base_result check_hosts task_vars s) = Inr result \<and>
           result = base_result(''changed'' \<mapsto> PBool False, ''failed'' \<mapsto> PBool False,
                                ''msg'' \<mapsto> PStr ''Sanity Checks passed'') \<and>
           result ''changed'' = Some (PBool False) \<and>
           result ''failed'' = Some (PBool False) \<and>
           result ''msg'' = Some (PStr ''Sanity Checks passed'')"
proof -
  from assms(2) obtain h hs where hosts: "hosts = h # hs"
    by (cases hosts) auto
  from assms(5) hosts obtain c where "fst (run_checks rt hostvars h c) = Inr ()"
    by auto
  with run_checks_missing_host [of hostvars h rt c] have "map_of hostvars h \<noteq> None"
    by auto
  then obtain p ps where hv: "hostvars = p # ps"
    by (cases hostvars) auto
  let ?s0 = "s\<lparr>last_checked_host := ''none'', last_checked_var := ''none''\<rparr>"
  have "fst (hosts_loop rt hostvars hosts ?s0) = Inr ()"
    using hosts_loop_pass [OF assms(5)] .
  then obtain s' where "hosts_loop rt hostvars hosts ?s0 = (Inr (), s')"
    by (cases "hosts_loop rt hostvars hosts ?s0") simp
  then have l: "hosts_loop rt (p # ps) (h # hs) ?s0 = (Inr (), s')"
    unfolding hosts hv .
  have "fst (run rt base_result check_hosts task_vars s) =
      Inr (base_result(''changed'' \<mapsto> PBool False, ''failed'' \<mapsto> PBool False,
                       ''msg'' \<mapsto> PStr ''Sanity Checks passed''))"
    unfolding run_def assms(1,3) hosts
    by (simp add: assms(4) hv l Let_def del: hosts_loop.simps)
  then show ?thesis by simp
qed


lemma run_checks_example:
  "fst (run_checks plain_runtime
         [(''host1'',
           [(''ansible_distribution'', PStr ''CentOS''),
            (''ansible_python'', PDict [(''version'', PDict [(''major'', PInt 2)])]),
            (''openshift_deployment_type'', PStr ''origin''),
            (''openshift_image_tag'', PStr ''latest''),
            (''openshift_hostname'', PStr ''master.example.com'')])]
         ''host1'' fresh_ctx) = Inr ()"
  by code_simp

theorem run_passes_witness:
  "\<exists>result.
     fst (run plain_runtime Map.empty (Some [''host1''])
            (Some \<lparr>tv_hostvars = Some
               [(''host1'',
                 [(''ansible_distribution'', PStr ''CentOS''),
                  (''ansible_python'', PDict [(''version'', PDict [(''major'', PInt 2)])]),
                  (''openshift_deployment_type'', PStr ''origin''),
                  (''openshift_image_tag'', PStr ''latest''),
                  (''openshift_hostname'', PStr ''master.example.com'')])]\<rparr>)
            fresh_ctx) = Inr result \<and>
     result ''changed'' = Some (PBool False) \<and>
     result ''failed'' = Some (PBool False) \<and>
     result ''msg'' = Some (PStr ''Sanity Checks passed'')"
proof -
  let ?hv = "[(''host1'',
                 [(''ansible_distribution'', PStr ''CentOS''),
                  (''ansible_python'', PDict [(''version'', PDict [(''major'', PInt 2)])]),
                  (''openshift_deployment_type'', PStr ''origin''),
                  (''openshift_image_tag'', PStr ''latest''),
                  (''openshift_hostname'', PStr ''master.example.com'')])]"
  have p: "\<forall>h \<in> set [''host1'']. \<exists>c. fst (run_checks plain_runtime ?hv h c) = Inr ()"
    using run_checks_example by auto
  have t: "tv_hostvars \<lparr>tv_hostvars = Some ?hv\<rparr> = Some ?hv"
    by simp
  from run_passes [OF refl _ refl t p, of Map.empty fresh_ctx]
  show ?thesis by simp
qed

end
